theory Spec2Isabelle
  imports Complex_Main
begin

section \<open>JavaScript Number values\<close>

text \<open>
  The calculator of \<^verbatim>\<open>src/components/BondCalculator.tsx\<close> computes with JavaScript
  Numbers (IEEE 754 binary64). A Number is NaN, an infinity with its sign, or a finite
  value \<open>(-1)^s * m * 2^e\<close> kept as sign bit, mantissa and binary exponent (the sign
  bit tells \<open>-0\<close> from \<open>+0\<close>). The sign bit is \<open>True\<close> for a negative value;
  the mantissa is a non-negative integer. The arithmetic below always produces the
  mantissa odd (or zero with exponent zero), so that equal finite values are equal terms.
\<close>

datatype number = NaN | Infinity bool | Finite bool int int

function bit_length :: "int \<Rightarrow> int" where
  "bit_length n = (if n \<le> 0 then 0 else 1 + bit_length (n div 2))"
  by pat_completeness auto
termination
  by (relation "measure nat") auto

declare bit_length.simps [simp del]

function trim_zeros :: "int \<Rightarrow> int \<Rightarrow> int \<times> int" where
  "trim_zeros m e =
     (if m \<le> 0 then (0, 0) else if even m then trim_zeros (m div 2) (e + 1) else (m, e))"
  by pat_completeness auto
termination
  by (relation "measure (\<lambda>(m, e). nat m)") auto

declare trim_zeros.simps [simp del]

definition round_half_even_div :: "int \<Rightarrow> int \<Rightarrow> int" where
  "round_half_even_div num den =
     (let q = num div den; r = num mod den
      in if 2 * r < den then q else if den < 2 * r then q + 1
         else if even q then q else q + 1)"

text \<open>\<open>floor_log2_ratio a b\<close> is \<open>\<lfloor>log\<^sub>2 (a / b)\<rfloor>\<close> for positive \<open>a\<close> and \<open>b\<close>.\<close>

definition floor_log2_ratio :: "int \<Rightarrow> int \<Rightarrow> int" where
  "floor_log2_ratio a b =
     (let d = bit_length a - bit_length b
      in if (if 0 \<le> d then b * 2 ^ nat d \<le> a else b \<le> a * 2 ^ nat (- d)) then d else d - 1)"

text \<open>
  \<open>round_to_double s a b k\<close> is the Number value for \<open>(-1)^s * (a / b) * 2^k\<close>:
  round to nearest, ties to even, with 53 significant bits, the least binary exponent
  \<open>-1022\<close> (so the unit in the last place is never below \<open>2^-1074\<close>), and an infinity
  for a rounded value of \<open>2^1024\<close> or more.
\<close>

definition round_to_double :: "bool \<Rightarrow> int \<Rightarrow> int \<Rightarrow> int \<Rightarrow> number" where
  "round_to_double s a b k =
     (if a \<le> 0 then Finite s 0 0
      else
        let x = max (floor_log2_ratio a b + k) (- 1022) - 52;
            n = (if x \<le> k then round_half_even_div (a * 2 ^ nat (k - x)) b
                 else round_half_even_div a (b * 2 ^ nat (x - k)))
        in if 1024 < bit_length n + x then Infinity s
           else (case trim_zeros n x of (m, e) \<Rightarrow> Finite s m e))"

definition number_of_int :: "int \<Rightarrow> number" where
  "number_of_int i = round_to_double (i < 0) \<bar>i\<bar> 1 0"

definition isNaN :: "number \<Rightarrow> bool" where
  "isNaN x = (x = NaN)"

definition isFinite :: "number \<Rightarrow> bool" where
  "isFinite x = (case x of Finite _ _ _ \<Rightarrow> True | _ \<Rightarrow> False)"

definition signed :: "bool \<Rightarrow> int \<Rightarrow> int" where
  "signed s m = (if s then - m else m)"

fun js_neg :: "number \<Rightarrow> number" where
  "js_neg NaN = NaN"
| "js_neg (Infinity s) = Infinity (\<not> s)"
| "js_neg (Finite s m e) = Finite (\<not> s) m e"

fun js_add :: "number \<Rightarrow> number \<Rightarrow> number" where
  "js_add NaN _ = NaN"
| "js_add _ NaN = NaN"
| "js_add (Infinity s) (Infinity t) = (if s = t then Infinity s else NaN)"
| "js_add (Infinity s) (Finite _ _ _) = Infinity s"
| "js_add (Finite _ _ _) (Infinity t) = Infinity t"
| "js_add (Finite s m e) (Finite t n f) =
     (let x = min e f;
          c = signed s (m * 2 ^ nat (e - x)) + signed t (n * 2 ^ nat (f - x))
      in if c = 0 then Finite (s \<and> t) 0 0
         else round_to_double (c < 0) \<bar>c\<bar> 1 x)"

definition js_sub :: "number \<Rightarrow> number \<Rightarrow> number" where
  "js_sub a b = js_add a (js_neg b)"

fun js_mul :: "number \<Rightarrow> number \<Rightarrow> number" where
  "js_mul NaN _ = NaN"
| "js_mul _ NaN = NaN"
| "js_mul (Infinity s) (Infinity t) = Infinity (s \<noteq> t)"
| "js_mul (Infinity s) (Finite t n _) = (if n = 0 then NaN else Infinity (s \<noteq> t))"
| "js_mul (Finite s m _) (Infinity t) = (if m = 0 then NaN else Infinity (s \<noteq> t))"
| "js_mul (Finite s m e) (Finite t n f) = round_to_double (s \<noteq> t) (m * n) 1 (e + f)"

fun js_div :: "number \<Rightarrow> number \<Rightarrow> number" where
  "js_div NaN _ = NaN"
| "js_div _ NaN = NaN"
| "js_div (Infinity s) (Infinity t) = NaN"
| "js_div (Infinity s) (Finite t _ _) = Infinity (s \<noteq> t)"
| "js_div (Finite s _ _) (Infinity t) = Finite (s \<noteq> t) 0 0"
| "js_div (Finite s m e) (Finite t n f) =
     (if n = 0 then (if m = 0 then NaN else Infinity (s \<noteq> t))
      else round_to_double (s \<noteq> t) m n (e - f))"

text \<open>The relation \<open>a <= b\<close> of JavaScript: false when an operand is NaN; the two zeros are equal.\<close>

fun js_le :: "number \<Rightarrow> number \<Rightarrow> bool" where
  "js_le NaN _ = False"
| "js_le _ NaN = False"
| "js_le (Infinity s) (Infinity t) = (s \<or> \<not> t)"
| "js_le (Infinity s) (Finite _ _ _) = s"
| "js_le (Finite _ _ _) (Infinity t) = (\<not> t)"
| "js_le (Finite s m e) (Finite t n f) =
     (let x = min e f
      in signed s (m * 2 ^ nat (e - x)) \<le> signed t (n * 2 ^ nat (f - x)))"

definition is_zero :: "number \<Rightarrow> bool" where
  "is_zero x = (case x of Finite _ m _ \<Rightarrow> m = 0 | _ \<Rightarrow> False)"

definition is_negative :: "number \<Rightarrow> bool" where
  "is_negative x = (case x of NaN \<Rightarrow> False | Infinity s \<Rightarrow> s | Finite s m _ \<Rightarrow> s \<and> m \<noteq> 0)"

definition is_integral :: "number \<Rightarrow> bool" where
  "is_integral x = (case x of Finite _ m e \<Rightarrow> 0 \<le> e \<or> 2 ^ nat (- e) dvd m | _ \<Rightarrow> False)"

definition is_odd_integer :: "number \<Rightarrow> bool" where
  "is_odd_integer x =
     (case x of
        Finite _ m e \<Rightarrow>
          if 0 \<le> e then odd (m * 2 ^ nat e)
          else 2 ^ nat (- e) dvd m \<and> odd (m div 2 ^ nat (- e))
      | _ \<Rightarrow> False)"

text \<open>
  \<open>Math.pow\<close> (Number::exponentiate of ECMAScript). Every special case is fixed by the
  language; only for a finite nonzero base and a finite nonzero exponent (the exponent
  integral when the base is negative) the result is "an implementation-approximated
  value", which the model takes from the parameter \<open>pw\<close>.
\<close>

definition js_pow :: "(number \<Rightarrow> number \<Rightarrow> number) \<Rightarrow> number \<Rightarrow> number \<Rightarrow> number" where
  "js_pow pw base exponent =
     (if exponent = NaN then NaN
      else if is_zero exponent then number_of_int 1
      else if base = NaN then NaN
      else
        (case base of
           Infinity False \<Rightarrow>
             if \<not> is_negative exponent then Infinity False else Finite False 0 0
         | Infinity True \<Rightarrow>
             if \<not> is_negative exponent
             then (if is_odd_integer exponent then Infinity True else Infinity False)
             else (if is_odd_integer exponent then Finite True 0 0 else Finite False 0 0)
         | Finite s m e \<Rightarrow>
             if m = 0 then
               (if \<not> s then (if \<not> is_negative exponent then Finite False 0 0 else Infinity False)
                else if \<not> is_negative exponent
                then (if is_odd_integer exponent then Finite True 0 0 else Finite False 0 0)
                else (if is_odd_integer exponent then Infinity True else Infinity False))
             else
               (case exponent of
                  Infinity False \<Rightarrow>
                    (case js_le (number_of_int 1) (Finite False m e) of
                       False \<Rightarrow> Finite False 0 0
                     | True \<Rightarrow> if js_le (Finite False m e) (number_of_int 1) then NaN
                               else Infinity False)
                | Infinity True \<Rightarrow>
                    (case js_le (number_of_int 1) (Finite False m e) of
                       False \<Rightarrow> Infinity False
                     | True \<Rightarrow> if js_le (Finite False m e) (number_of_int 1) then NaN
                               else Finite False 0 0)
                | _ \<Rightarrow>
                    if s \<and> \<not> is_integral exponent then NaN
                    else pw base exponent)))"

section \<open>Parsing the text fields\<close>

text \<open>
  The four fields are JavaScript strings. A \<open>string\<close> here is a list of 8-bit
  characters, read as the code units \<open>0\<close> to \<open>255\<close>; of the white space that
  \<open>parseFloat\<close> and \<open>parseInt\<close> skip, the code units above \<open>255\<close> (such as U+2028 or
  U+FEFF) lie outside this type. Both functions skip leading white space, read the
  longest prefix that is a number and ignore what follows it. The value of the prefix is
  rounded to the nearest Number (for a prefix of more than 20 significant digits
  ECMAScript also allows the value cut after the 20th digit; the exact value is taken
  here).
\<close>

definition is_white_space :: "char \<Rightarrow> bool" where
  "is_white_space c = (of_char c \<in> {9, 10, 11, 12, 13, 32, 160 :: int})"

definition digit_of_char :: "char \<Rightarrow> int option" where
  "digit_of_char c =
     (let n = of_char c :: int
      in if 48 \<le> n \<and> n \<le> 57 then Some (n - 48)
         else if 97 \<le> n \<and> n \<le> 122 then Some (n - 87)
         else if 65 \<le> n \<and> n \<le> 90 then Some (n - 55)
         else None)"

definition is_radix_digit :: "int \<Rightarrow> char \<Rightarrow> bool" where
  "is_radix_digit R c = (case digit_of_char c of Some d \<Rightarrow> d < R | None \<Rightarrow> False)"

definition radix_value :: "int \<Rightarrow> string \<Rightarrow> int" where
  "radix_value R ds =
     foldl (\<lambda>a c. a * R + (case digit_of_char c of Some d \<Rightarrow> d | None \<Rightarrow> 0)) 0 ds"

definition decimal_digits :: "string \<Rightarrow> string" where
  "decimal_digits s = takeWhile (is_radix_digit 10) s"

text \<open>
  The decimal exponent of an ExponentPart (\<open>e\<close> or \<open>E\<close>, an optional sign, digits) at the
  head of \<open>s\<close>; \<open>0\<close> when \<open>s\<close> does not start with one.
\<close>

definition exponent_part :: "string \<Rightarrow> int" where
  "exponent_part s =
     (case s of
        [] \<Rightarrow> 0
      | c # r \<Rightarrow>
          if c = CHR ''e'' \<or> c = CHR ''E'' then
            (case r of
               [] \<Rightarrow> 0
             | d # r' \<Rightarrow>
                 if d = CHR ''+'' then radix_value 10 (decimal_digits r')
                 else if d = CHR ''-'' then - radix_value 10 (decimal_digits r')
                 else radix_value 10 (decimal_digits r))
          else 0)"

text \<open>
  The Number for the longest prefix of \<open>t\<close> that is a StrUnsignedDecimalLiteral
  (\<open>Infinity\<close>, or digits with an optional fraction and exponent), with sign bit \<open>s\<close>;
  NaN when no prefix is one.
\<close>

definition str_unsigned_decimal_literal :: "bool \<Rightarrow> string \<Rightarrow> number" where
  "str_unsigned_decimal_literal s t =
     (if take 8 t = ''Infinity'' then Infinity s
      else
        let ip = decimal_digits t;
            r1 = drop (length ip) t;
            dot = (case r1 of [] \<Rightarrow> False | c # _ \<Rightarrow> c = CHR ''.'');
            fp = (if dot then decimal_digits (tl r1) else []);
            r2 = (if dot then drop (length fp) (tl r1) else r1)
        in if ip = [] \<and> fp = [] then NaN
           else
             let d = radix_value 10 (ip @ fp);
                 x = exponent_part r2 - int (length fp)
             in if 0 \<le> x then round_to_double s (d * 10 ^ nat x) 1 0
                else round_to_double s d (10 ^ nat (- x)) 0)"

definition parseFloat :: "string \<Rightarrow> number" where
  "parseFloat str =
     (let t = dropWhile is_white_space str
      in case t of
           [] \<Rightarrow> NaN
         | c # r \<Rightarrow>
             if c = CHR ''-'' then str_unsigned_decimal_literal True r
             else if c = CHR ''+'' then str_unsigned_decimal_literal False r
             else str_unsigned_decimal_literal False t)"

text \<open>\<open>parseInt\<close> with no radix argument: base 10, or base 16 after \<open>0x\<close> or \<open>0X\<close>.\<close>

definition parseInt :: "string \<Rightarrow> number" where
  "parseInt str =
     (let t = dropWhile is_white_space str;
          neg = (case t of [] \<Rightarrow> False | c # _ \<Rightarrow> c = CHR ''-'');
          t1 = (case t of [] \<Rightarrow> [] | c # r \<Rightarrow> if c = CHR ''+'' \<or> c = CHR ''-'' then r else t);
          hex = (take 2 t1 = ''0x'' \<or> take 2 t1 = ''0X'');
          R = (if hex then 16 else 10);
          z = takeWhile (is_radix_digit R) (if hex then drop 2 t1 else t1)
      in if z = [] then NaN else round_to_double neg (radix_value R z) 1 0)"

section \<open>The calculator\<close>

record BondData =
  nominalValue :: string
  currentValue :: string
  expirationYear :: string
  yearlyInterestRate :: string

record CalculationResult =
  compoundRate :: number
  totalInterestPayments :: number
  totalReturn :: number
  yearsRemaining :: number

text \<open>
  \<open>calculateCompoundRate\<close> reads the four fields and the calendar year of the system
  clock (\<open>new Date().getFullYear()\<close>, the parameter \<open>currentYear\<close>) and hands
  \<open>setResult\<close> either \<open>null\<close> (\<open>None\<close>) or a result: the value returned here.
\<close>

definition calculateCompoundRate ::
  "(number \<Rightarrow> number \<Rightarrow> number) \<Rightarrow> int \<Rightarrow> BondData \<Rightarrow> CalculationResult option" where
  "calculateCompoundRate pw currentYear bd =
     (let nominal = parseFloat (nominalValue bd);
          current = parseFloat (currentValue bd);
          expYear = parseInt (expirationYear bd);
          interestRate = js_div (parseFloat (yearlyInterestRate bd)) (number_of_int 100)
      in if isNaN nominal \<or> isNaN current \<or> isNaN expYear \<or> isNaN interestRate then None
         else
           let years = js_sub expYear (number_of_int currentYear)
           in if js_le years (number_of_int 0) then None
              else
                let annualInterest = js_mul nominal interestRate;
                    totalInterest = js_mul annualInterest years;
                    total = js_add totalInterest nominal;
                    rate = js_pow pw (js_div total current) (js_div (number_of_int 1) years)
                in Some \<lparr>compoundRate = rate, totalInterestPayments = totalInterest,
                          totalReturn = total, yearsRemaining = years\<rparr>)"

text \<open>
  The per-year interest of the formula breakdown (lines 217 and 220 of the source):
  \<open>result.totalInterestPayments / result.yearsRemaining\<close>.
\<close>

definition displayedAnnualInterest :: "CalculationResult \<Rightarrow> number" where
  "displayedAnnualInterest r = js_div (totalInterestPayments r) (yearsRemaining r)"

text \<open>The annual interest as \<open>calculateCompoundRate\<close> computes it (line 52).\<close>

definition annualInterestOf :: "BondData \<Rightarrow> number" where
  "annualInterestOf bd =
     js_mul (parseFloat (nominalValue bd))
       (js_div (parseFloat (yearlyInterestRate bd)) (number_of_int 100))"

section \<open>The form state\<close>

datatype Field = NominalValueField | CurrentValueField | ExpirationYearField | YearlyInterestRateField

definition field_text :: "Field \<Rightarrow> BondData \<Rightarrow> string" where
  "field_text f bd =
     (case f of
        NominalValueField \<Rightarrow> nominalValue bd
      | CurrentValueField \<Rightarrow> currentValue bd
      | ExpirationYearField \<Rightarrow> expirationYear bd
      | YearlyInterestRateField \<Rightarrow> yearlyInterestRate bd)"

text \<open>\<open>handleInputChange field value\<close> as the update of the previous \<open>BondData\<close>:
  \<open>{ ...prev, [field]: value }\<close>.\<close>

definition handleInputChange :: "Field \<Rightarrow> string \<Rightarrow> BondData \<Rightarrow> BondData" where
  "handleInputChange f v prev =
     (case f of
        NominalValueField \<Rightarrow> prev\<lparr>nominalValue := v\<rparr>
      | CurrentValueField \<Rightarrow> prev\<lparr>currentValue := v\<rparr>
      | ExpirationYearField \<Rightarrow> prev\<lparr>expirationYear := v\<rparr>
      | YearlyInterestRateField \<Rightarrow> prev\<lparr>yearlyInterestRate := v\<rparr>)"

text \<open>The component holds the form's text and the result; the effect on \<open>bondData\<close>
  recomputes the result after every change.\<close>

record Component =
  bondData :: BondData
  result :: "CalculationResult option"

definition recompute :: "(number \<Rightarrow> number \<Rightarrow> number) \<Rightarrow> int \<Rightarrow> Component \<Rightarrow> Component" where
  "recompute pw currentYear c = c\<lparr>result := calculateCompoundRate pw currentYear (bondData c)\<rparr>"

section \<open>Predicates of the claims\<close>

text \<open>The relation \<open>a < b\<close> of JavaScript.\<close>

definition js_lt :: "number \<Rightarrow> number \<Rightarrow> bool" where
  "js_lt a b = (a \<noteq> NaN \<and> b \<noteq> NaN \<and> \<not> js_le b a)"

text \<open>The calendar years a JavaScript \<open>Date\<close> can hold (\<open>getFullYear\<close> returns one of them).\<close>

definition calendar_year :: "int \<Rightarrow> bool" where
  "calendar_year y = (- 271821 \<le> y \<and> y \<le> 275760)"

text \<open>The sign bit of a Number (that of \<open>-0\<close> is set).\<close>

definition sign_bit :: "number \<Rightarrow> bool" where
  "sign_bit x = (case x of NaN \<Rightarrow> False | Infinity s \<Rightarrow> s | Finite s _ _ \<Rightarrow> s)"

text \<open>
  A text with no start of a number: empty or white space only, or its first character
  after the white space is not a digit, a sign, a decimal point or the \<open>I\<close> of
  \<open>Infinity\<close>.
\<close>

definition no_number_start :: "string \<Rightarrow> bool" where
  "no_number_start t =
     (case dropWhile is_white_space t of
        [] \<Rightarrow> True
      | c # _ \<Rightarrow> \<not> is_radix_digit 10 c \<and> c \<notin> set ''+-.I'')"

text \<open>
  A character \<open>c\<close> right after the decimal digits \<open>ds\<close> at which the number of the field
  \<open>f\<close> ends: not a digit; for the expiration year (\<open>parseInt\<close>) not the \<open>x\<close> of a \<open>0x\<close>
  prefix, for the other fields (\<open>parseFloat\<close>) not a decimal point or exponent letter.
\<close>

definition ignored_after :: "Field \<Rightarrow> string \<Rightarrow> char \<Rightarrow> bool" where
  "ignored_after f ds c =
     (\<not> is_radix_digit 10 c \<and>
      (if f = ExpirationYearField then \<not> (ds = ''0'' \<and> (c = CHR ''x'' \<or> c = CHR ''X''))
       else c \<noteq> CHR ''.'' \<and> c \<noteq> CHR ''e'' \<and> c \<noteq> CHR ''E''))"

text \<open>The Number of the decimal with integer digits \<open>ds\<close> and fraction digits \<open>fs\<close>.\<close>

definition decimal_number :: "string \<Rightarrow> string \<Rightarrow> number" where
  "decimal_number ds fs = round_to_double False (radix_value 10 (ds @ fs)) (10 ^ length fs) 0"

section \<open>Facts about Numbers\<close>

lemma round_to_double_not_NaN: "round_to_double s a b k \<noteq> NaN"
  by (simp add: round_to_double_def Let_def split: prod.split)

lemma trim_zeros_nonneg: "0 \<le> fst (trim_zeros m e)"
proof (induction m e rule: trim_zeros.induct)
  case (1 m e)
  then show ?case by (subst trim_zeros.simps) simp
qed

lemma round_to_double_cases:
  "(\<exists>m e. round_to_double s a b k = Finite s m e \<and> 0 \<le> m) \<or> round_to_double s a b k = Infinity s"
proof -
  have "0 \<le> fst (trim_zeros n x)" for n x by (rule trim_zeros_nonneg)
  then show ?thesis
    by (auto simp add: round_to_double_def Let_def split: prod.split)
      (metis fst_conv)+
qed

lemma bit_length_le: "n < 2 ^ k \<Longrightarrow> bit_length n \<le> int k"
proof (induction k arbitrary: n)
  case 0
  then show ?case by (subst bit_length.simps) simp
next
  case (Suc k)
  show ?case
  proof (cases "n \<le> 0")
    case True
    then show ?thesis by (subst bit_length.simps) simp
  next
    case False
    have "n div 2 < 2 ^ k" using Suc.prems by simp
    then have "bit_length (n div 2) \<le> int k" by (rule Suc.IH)
    then show ?thesis using False by (subst bit_length.simps) simp
  qed
qed

lemma round_half_even_div_one: "round_half_even_div n 1 = n"
  by (simp add: round_half_even_div_def)

lemma bit_length_nonneg: "0 \<le> bit_length n"
proof (induction n rule: bit_length.induct)
  case (1 n)
  then show ?case by (subst bit_length.simps) simp
qed

lemma bit_length_one: "bit_length 1 = 1"
  by (simp add: bit_length.simps)

lemma number_of_int_finite:
  assumes "\<bar>i\<bar> < 2 ^ 53"
  shows "isFinite (number_of_int i)"
proof (cases "\<bar>i\<bar> \<le> 0")
  case True
  then show ?thesis by (simp add: number_of_int_def round_to_double_def isFinite_def)
next
  case False
  define a where "a = \<bar>i\<bar>"
  define x where "x = max (floor_log2_ratio a 1) (- 1022) - 52"
  have a: "0 < a" "a < 2 ^ 53" using False assms by (simp_all add: a_def)
  have bl: "bit_length a \<le> 53" using bit_length_le [of a 53] a by simp
  have "floor_log2_ratio a 1 \<le> bit_length a - 1"
    by (simp add: floor_log2_ratio_def Let_def bit_length_one)
  then have x: "x \<le> 0" using bl by (simp add: x_def)
  have "a * 2 ^ nat (- x) < 2 ^ 53 * 2 ^ nat (- x)" using a by simp
  then have "a * 2 ^ nat (- x) < 2 ^ (53 + nat (- x))" by (simp add: power_add)
  then have "bit_length (a * 2 ^ nat (- x)) \<le> int (53 + nat (- x))" by (rule bit_length_le)
  then have "bit_length (a * 2 ^ nat (- x)) + x \<le> 53" using x by simp
  then show ?thesis
    using x False
    by (simp add: number_of_int_def round_to_double_def Let_def isFinite_def
        round_half_even_div_one a_def [symmetric] x_def [symmetric] split: prod.split)
qed

lemma calendar_year_finite: "calendar_year y \<Longrightarrow> isFinite (number_of_int y)"
  by (rule number_of_int_finite) (auto simp add: calendar_year_def)

lemma number_of_int_0: "number_of_int 0 = Finite False 0 0"
  by (simp add: number_of_int_def round_to_double_def)

lemma number_of_int_100: "number_of_int 100 = Finite False 25 2"
  by code_simp

lemma number_of_int_1: "number_of_int 1 = Finite False 1 0"
  by code_simp

lemma js_div_100_NaN: "isNaN (js_div x (number_of_int 100)) = isNaN x"
  by (cases x) (simp_all add: number_of_int_100 isNaN_def round_to_double_not_NaN)

lemma js_sub_not_NaN:
  assumes "x \<noteq> NaN" and "isFinite b"
  shows "js_sub x b \<noteq> NaN"
proof -
  obtain t n f where b: "b = Finite t n f"
    using assms(2) by (cases b) (simp_all add: isFinite_def)
  show ?thesis
    using assms(1) by (cases x) (simp_all add: b js_sub_def Let_def round_to_double_not_NaN)
qed

lemma js_lt_iff_not_le: "a \<noteq> NaN \<Longrightarrow> b \<noteq> NaN \<Longrightarrow> js_lt a b = (\<not> js_le b a)"
  by (simp add: js_lt_def)

lemma signed_neg: "signed (\<not> t) v = - signed t v"
  by (simp add: signed_def)

lemma js_le_round_negative: "0 < a \<Longrightarrow> js_le (round_to_double True a b k) (Finite False 0 0)"
  using round_to_double_cases [of True a b k]
  by (auto simp add: Let_def signed_def)

lemma js_sub_le_zero:
  assumes "js_le y c" and "isFinite c"
  shows "js_le (js_sub y c) (number_of_int 0)"
proof -
  obtain t n f where c: "c = Finite t n f"
    using assms(2) by (cases c) (simp_all add: isFinite_def)
  show ?thesis
  proof (cases y)
    case NaN
    then show ?thesis using assms(1) by simp
  next
    case (Infinity s)
    then show ?thesis using assms(1) by (simp add: c js_sub_def number_of_int_0)
  next
    case (Finite s m e)
    define d where "d = signed s (m * 2 ^ nat (e - min e f)) - signed t (n * 2 ^ nat (f - min e f))"
    have d: "d \<le> 0" using assms(1) by (simp add: Finite c d_def Let_def)
    have sub: "js_sub y c = (if d = 0 then Finite (s \<and> \<not> t) 0 0 else round_to_double (d < 0) \<bar>d\<bar> 1 (min e f))"
      by (simp add: Finite c js_sub_def Let_def signed_neg d_def)
    show ?thesis
    proof (cases "d = 0")
      case True
      then show ?thesis by (simp add: sub number_of_int_0 Let_def signed_def)
    next
      case False
      then have "d < 0" using d by simp
      then show ?thesis using js_le_round_negative [of "\<bar>d\<bar>" 1 "min e f"]
        by (simp add: sub number_of_int_0)
    qed
  qed
qed

lemma calculate_None_iff:
  "calculateCompoundRate pw cy bd = None \<longleftrightarrow>
     isNaN (parseFloat (nominalValue bd)) \<or> isNaN (parseFloat (currentValue bd)) \<or>
     isNaN (parseInt (expirationYear bd)) \<or> isNaN (parseFloat (yearlyInterestRate bd)) \<or>
     js_le (js_sub (parseInt (expirationYear bd)) (number_of_int cy)) (number_of_int 0)"
  by (simp add: calculateCompoundRate_def Let_def js_div_100_NaN)

lemma calculate_Some:
  assumes "\<not> isNaN (parseFloat (nominalValue bd))" and "\<not> isNaN (parseFloat (currentValue bd))"
    and "\<not> isNaN (parseInt (expirationYear bd))" and "\<not> isNaN (parseFloat (yearlyInterestRate bd))"
    and "\<not> js_le (js_sub (parseInt (expirationYear bd)) (number_of_int cy)) (number_of_int 0)"
  shows "calculateCompoundRate pw cy bd =
    (let nominal = parseFloat (nominalValue bd);
         years = js_sub (parseInt (expirationYear bd)) (number_of_int cy);
         annualInterest = js_mul nominal (js_div (parseFloat (yearlyInterestRate bd)) (number_of_int 100));
         totalInterest = js_mul annualInterest years;
         total = js_add totalInterest nominal
     in Some \<lparr>compoundRate = js_pow pw (js_div total (parseFloat (currentValue bd))) (js_div (number_of_int 1) years),
               totalInterestPayments = totalInterest, totalReturn = total, yearsRemaining = years\<rparr>)"
  using assms by (simp add: calculateCompoundRate_def Let_def js_div_100_NaN)

section \<open>Facts about parsing and the calculator\<close>

lemma digit_chars: "is_radix_digit 10 c \<longleftrightarrow> c \<in> set ''0123456789''"
  by (cases c) (simp add: is_radix_digit_def digit_of_char_def Let_def)

lemma take_Infinity: "take 8 (c # r) = ''Infinity'' \<Longrightarrow> c = CHR ''I''"
  by (cases r) simp_all

lemma parseFloat_no_number: "no_number_start t \<Longrightarrow> parseFloat t = NaN"
proof (cases "dropWhile is_white_space t")
  case Nil
  show ?thesis unfolding parseFloat_def Let_def Nil by simp
next
  case (Cons c r)
  assume "no_number_start t"
  then have c: "\<not> is_radix_digit 10 c" "c \<noteq> CHR ''+''" "c \<noteq> CHR ''-''" "c \<noteq> CHR ''.''" "c \<noteq> CHR ''I''"
    by (simp_all add: no_number_start_def Cons)
  have "take 8 (c # r) \<noteq> ''Infinity''" using take_Infinity c(5) by blast
  then have "str_unsigned_decimal_literal False (c # r) = NaN"
    using c by (simp add: str_unsigned_decimal_literal_def decimal_digits_def Let_def)
  then show ?thesis using c unfolding parseFloat_def Let_def Cons by simp
qed

lemma digit_0: "is_radix_digit 10 CHR ''0''"
  by (simp add: is_radix_digit_def digit_of_char_def)

lemma parseInt_no_number: "no_number_start t \<Longrightarrow> parseInt t = NaN"
proof (cases "dropWhile is_white_space t")
  case Nil
  show ?thesis unfolding parseInt_def Let_def Nil by simp
next
  case (Cons c r)
  assume "no_number_start t"
  then have c: "\<not> is_radix_digit 10 c" "c \<noteq> CHR ''+''" "c \<noteq> CHR ''-''"
    by (simp_all add: no_number_start_def Cons)
  then have "c \<noteq> CHR ''0''" using digit_0 by auto
  then show ?thesis using c unfolding parseInt_def Let_def Cons by simp
qed

lemma round_to_double_sign:
  "sign_bit (round_to_double s a b k) = s"
  using round_to_double_cases [of s a b k] by (auto simp add: sign_bit_def)

lemma js_mul_sign:
  "js_mul a b = NaN \<or> sign_bit (js_mul a b) = (sign_bit a \<noteq> sign_bit b)"
  by (cases a; cases b) (simp_all add: round_to_double_sign, simp_all add: sign_bit_def)

lemma js_div_sign:
  "js_div a b = NaN \<or> sign_bit (js_div a b) = (sign_bit a \<noteq> sign_bit b)"
  by (cases a; cases b) (simp_all add: round_to_double_sign, simp_all add: sign_bit_def)

lemma positive_sign:
  assumes "x = round_to_double s a b k \<or> x = Infinity s \<or> x = Finite s 0 0"
    and "\<not> js_le x (number_of_int 0)"
  shows "\<not> sign_bit x"
  using assms round_to_double_cases [of s a b k]
  by (auto simp add: number_of_int_0 sign_bit_def Let_def signed_def split: if_splits)

lemma js_sub_positive_sign:
  assumes "\<not> js_le (js_sub y c) (number_of_int 0)"
  shows "\<not> sign_bit (js_sub y c)"
proof (cases "js_sub y c")
  case NaN
  then show ?thesis by (simp add: sign_bit_def)
next
  case (Infinity s)
  then show ?thesis using assms by (simp add: sign_bit_def number_of_int_0)
next
  case (Finite s m e)
  obtain t n f u p g where yc: "y = Finite t n f" "c = Finite u p g"
    using Finite by (cases y; cases c) (simp_all add: js_sub_def split: if_splits)
  define d where "d = signed t (n * 2 ^ nat (f - min f g)) + signed (\<not> u) (p * 2 ^ nat (g - min f g))"
  have "js_sub y c = (if d = 0 then Finite (t \<and> \<not> u) 0 0 else round_to_double (d < 0) \<bar>d\<bar> 1 (min f g))"
    by (simp add: yc js_sub_def Let_def d_def)
  then show ?thesis
    using assms positive_sign [of "js_sub y c" "d < 0" "\<bar>d\<bar>" 1 "min f g"]
      positive_sign [of "js_sub y c" "t \<and> \<not> u" 0 1 0]
    by (auto split: if_splits)
qed

lemma calculate_SomeD:
  assumes "calculateCompoundRate pw cy bd = Some r"
  shows "yearsRemaining r = js_sub (parseInt (expirationYear bd)) (number_of_int cy) \<and>
     totalInterestPayments r = js_mul (annualInterestOf bd) (yearsRemaining r) \<and>
     totalReturn r = js_add (totalInterestPayments r) (parseFloat (nominalValue bd)) \<and>
     compoundRate r =
       js_pow pw (js_div (totalReturn r) (parseFloat (currentValue bd)))
         (js_div (number_of_int 1) (yearsRemaining r))"
  using assms
  by (auto simp add: calculateCompoundRate_def Let_def annualInterestOf_def split: if_splits)

lemma digit_not_special:
  assumes "is_radix_digit 10 c"
  shows "\<not> is_white_space c" "c \<noteq> CHR ''-''" "c \<noteq> CHR ''+''" "c \<noteq> CHR ''x''" "c \<noteq> CHR ''X''"
    "c \<noteq> CHR ''I''" "c \<noteq> CHR ''.''"
  using assms unfolding digit_chars by (auto simp add: is_white_space_def)

lemma digit_of_char_nonneg: "digit_of_char c = Some d \<Longrightarrow> 0 \<le> d"
  by (auto simp add: digit_of_char_def Let_def split: if_splits)

lemma foldl_radix_nonneg:
  "0 \<le> a \<Longrightarrow> 0 \<le> R \<Longrightarrow>
   0 \<le> foldl (\<lambda>a c. a * R + (case digit_of_char c of Some d \<Rightarrow> d | None \<Rightarrow> 0)) a ds"
proof (induction ds arbitrary: a)
  case Nil
  then show ?case by simp
next
  case (Cons c ds)
  have "0 \<le> a * R + (case digit_of_char c of Some d \<Rightarrow> d | None \<Rightarrow> 0)"
    using Cons.prems digit_of_char_nonneg by (auto split: option.split)
  then show ?case using Cons.IH Cons.prems by simp
qed

lemma radix_value_nonneg: "0 \<le> R \<Longrightarrow> 0 \<le> radix_value R ds"
  by (simp add: radix_value_def foldl_radix_nonneg)

lemma number_of_int_nonneg: "0 \<le> v \<Longrightarrow> number_of_int v = round_to_double False v 1 0"
  by (simp add: number_of_int_def)

lemma take_2_digits:
  assumes "ds \<noteq> []" and "list_all (is_radix_digit 10) ds"
    and "case rest of [] \<Rightarrow> True
         | c # _ \<Rightarrow> \<not> (ds = ''0'' \<and> (c = CHR ''x'' \<or> c = CHR ''X''))"
  shows "take 2 (ds @ rest) \<noteq> ''0x'' \<and> take 2 (ds @ rest) \<noteq> ''0X''"
proof (cases ds)
  case Nil
  then show ?thesis using assms(1) by simp
next
  case (Cons d ds')
  show ?thesis
  proof (cases ds')
    case Nil
    then show ?thesis using assms(3) Cons by (cases rest) auto
  next
    case (Cons e ds'')
    then have "is_radix_digit 10 e" using assms(2) \<open>ds = d # ds'\<close> by simp
    then show ?thesis using digit_not_special(4,5) [of e] Cons \<open>ds = d # ds'\<close> by auto
  qed
qed

lemma parseInt_digits:
  assumes "ds \<noteq> []" and "list_all (is_radix_digit 10) ds"
    and "case rest of [] \<Rightarrow> True
         | c # _ \<Rightarrow> \<not> is_radix_digit 10 c \<and> \<not> (ds = ''0'' \<and> (c = CHR ''x'' \<or> c = CHR ''X''))"
  shows "parseInt (ds @ rest) = number_of_int (radix_value 10 ds)"
proof -
  obtain d ds' where ds: "ds = d # ds'" using assms(1) by (cases ds) auto
  have d: "is_radix_digit 10 d" using assms(2) ds by simp
  have t: "dropWhile is_white_space (ds @ rest) = ds @ rest"
    using digit_not_special(1) [OF d] ds by simp
  have nohex: "take 2 (ds @ rest) \<noteq> ''0x'' \<and> take 2 (ds @ rest) \<noteq> ''0X''"
    using take_2_digits [OF assms(1,2), of rest] assms(3) by (cases rest) auto
  have all: "\<And>x. x \<in> set ds \<Longrightarrow> is_radix_digit 10 x"
    using assms(2) by (simp add: list_all_iff)
  have "takeWhile (is_radix_digit 10) rest = []" using assms(3) by (cases rest) auto
  then have z: "takeWhile (is_radix_digit 10) (ds @ rest) = ds"
    using all by (simp add: takeWhile_append2)
  have neg: "(case ds @ rest of [] \<Rightarrow> False | c # _ \<Rightarrow> c = CHR ''-'') = False"
    using digit_not_special(2) [OF d] by (simp add: ds)
  have t1: "(case ds @ rest of [] \<Rightarrow> []
             | c # r \<Rightarrow> if c = CHR ''+'' \<or> c = CHR ''-'' then r else ds @ rest) = ds @ rest"
    using digit_not_special(2,3) [OF d] by (simp add: ds)
  have "parseInt (ds @ rest) = round_to_double False (radix_value 10 ds) 1 0"
    unfolding parseInt_def Let_def t neg t1
    using nohex z assms(1) by simp
  then show ?thesis by (simp add: number_of_int_nonneg radix_value_nonneg)
qed

lemma parseFloat_decimal:
  assumes "ds \<noteq> []" and "list_all (is_radix_digit 10) ds" and "list_all (is_radix_digit 10) fs"
  shows "parseFloat (ds @ CHR ''.'' # fs) =
     round_to_double False (radix_value 10 (ds @ fs)) (10 ^ length fs) 0"
proof -
  obtain d ds' where ds: "ds = d # ds'" using assms(1) by (cases ds) auto
  have d: "is_radix_digit 10 d" using assms(2) ds by simp
  have t: "dropWhile is_white_space (ds @ CHR ''.'' # fs) = ds @ CHR ''.'' # fs"
    using digit_not_special(1) [OF d] ds by simp
  have sgn: "(case ds @ CHR ''.'' # fs of [] \<Rightarrow> NaN
      | c # r \<Rightarrow>
          if c = CHR ''-'' then str_unsigned_decimal_literal True r
          else if c = CHR ''+'' then str_unsigned_decimal_literal False r
          else str_unsigned_decimal_literal False (ds @ CHR ''.'' # fs)) =
      str_unsigned_decimal_literal False (ds @ CHR ''.'' # fs)"
    using digit_not_special(2,3) [OF d] by (simp add: ds)
  have nil: "decimal_digits [] = []" by (simp add: decimal_digits_def)
  have inf: "take 8 (ds @ CHR ''.'' # fs) \<noteq> ''Infinity''"
    using digit_not_special(6) [OF d] take_Infinity [of d "ds' @ CHR ''.'' # fs"] ds by auto
  have all: "\<And>x. x \<in> set ds \<Longrightarrow> is_radix_digit 10 x" "\<And>x. x \<in> set fs \<Longrightarrow> is_radix_digit 10 x"
    using assms(2,3) by (simp_all add: list_all_iff)
  have nd: "\<not> is_radix_digit 10 CHR ''.''" using digit_not_special(7) by blast
  have ip: "decimal_digits (ds @ CHR ''.'' # fs) = ds"
    using all(1) nd by (simp add: decimal_digits_def takeWhile_append2)
  have fp: "decimal_digits fs = fs"
    using all(2) by (simp add: decimal_digits_def takeWhile_eq_all_conv)
  have lit: "str_unsigned_decimal_literal False (ds @ CHR ''.'' # fs) =
      round_to_double False (radix_value 10 (ds @ fs)) (10 ^ length fs) 0"
    unfolding str_unsigned_decimal_literal_def Let_def ip
    using inf fp nil assms(1) by (simp add: exponent_part_def)
  show ?thesis
    unfolding parseFloat_def Let_def t sgn by (rule lit)
qed

section \<open>Facts about rounding\<close>

lemma bit_length_pos: "0 < n \<Longrightarrow> 1 \<le> bit_length n"
  using bit_length_nonneg [of "n div 2"] by (subst bit_length.simps) simp

lemma bit_length_upper: "0 < n \<Longrightarrow> n < 2 ^ nat (bit_length n)"
proof (induction n rule: bit_length.induct)
  case (1 n)
  show ?case
  proof (cases "n div 2 = 0")
    case True
    then have "n = 1" using "1.prems" by presburger
    then show ?thesis by (simp add: bit_length_one)
  next
    case False
    then have p: "0 < n div 2" using "1.prems" by simp
    then have ih: "n div 2 < 2 ^ nat (bit_length (n div 2))" using "1.IH" "1.prems" by simp
    have bl: "bit_length n = 1 + bit_length (n div 2)"
      using "1.prems" by (subst bit_length.simps) simp
    have "nat (bit_length n) = Suc (nat (bit_length (n div 2)))"
      using bl bit_length_nonneg [of "n div 2"] by simp
    moreover have "n < 2 * 2 ^ nat (bit_length (n div 2))" using ih by presburger
    ultimately show ?thesis by simp
  qed
qed

lemma bit_length_lower: "0 < n \<Longrightarrow> 2 ^ nat (bit_length n - 1) \<le> n"
proof (induction n rule: bit_length.induct)
  case (1 n)
  show ?case
  proof (cases "n div 2 = 0")
    case True
    then have "n = 1" using "1.prems" by presburger
    then show ?thesis by (simp add: bit_length_one)
  next
    case False
    then have p: "0 < n div 2" using "1.prems" by simp
    then have ih: "2 ^ nat (bit_length (n div 2) - 1) \<le> n div 2" using "1.IH" "1.prems" by simp
    have bl: "bit_length n = 1 + bit_length (n div 2)"
      using "1.prems" by (subst bit_length.simps) simp
    have "nat (bit_length n - 1) = Suc (nat (bit_length (n div 2) - 1))"
      using bl bit_length_pos [OF p] by simp
    moreover have "2 * 2 ^ nat (bit_length (n div 2) - 1) \<le> n" using ih by presburger
    ultimately show ?thesis by simp
  qed
qed

lemma trim_zeros_invariant:
  "0 < n \<Longrightarrow> trim_zeros n x = (m, e) \<Longrightarrow> 0 < m \<and> bit_length m + e = bit_length n + x"
proof (induction n x rule: trim_zeros.induct)
  case (1 n x)
  show ?case
  proof (cases "even n")
    case True
    then have p: "0 < n div 2" using "1.prems"(1) by presburger
    have t: "trim_zeros (n div 2) (x + 1) = (m, e)"
      using "1.prems" True by (subst (asm) trim_zeros.simps) simp
    have bl: "bit_length n = 1 + bit_length (n div 2)"
      using "1.prems"(1) by (subst bit_length.simps) simp
    show ?thesis using "1.IH" [OF _ True p t] "1.prems"(1) bl by simp
  next
    case False
    then have "(m, e) = (n, x)"
      using "1.prems" by (subst (asm) trim_zeros.simps) simp
    then show ?thesis using "1.prems"(1) by simp
  qed
qed

lemma round_to_double_bound:
  assumes "round_to_double s a b k = Finite t m e"
  shows "m = 0 \<or> (0 < m \<and> bit_length m + e \<le> 1024)"
proof (cases "a \<le> 0")
  case True
  then show ?thesis using assms by (simp add: round_to_double_def)
next
  case False
  define x where "x = max (floor_log2_ratio a b + k) (- 1022) - 52"
  define n where "n = (if x \<le> k then round_half_even_div (a * 2 ^ nat (k - x)) b
                 else round_half_even_div a (b * 2 ^ nat (x - k)))"
  have r: "round_to_double s a b k =
      (if 1024 < bit_length n + x then Infinity s
       else (case trim_zeros n x of (m, e) \<Rightarrow> Finite s m e))"
    using False by (simp add: round_to_double_def Let_def x_def n_def)
  then have le: "bit_length n + x \<le> 1024" and tz: "trim_zeros n x = (m, e)"
    using assms by (auto split: if_splits prod.splits)
  show ?thesis
  proof (cases "0 < n")
    case True
    then show ?thesis using trim_zeros_invariant [OF True tz] le by simp
  next
    case False
    then have "trim_zeros n x = (0, 0)" by (subst trim_zeros.simps) simp
    then show ?thesis using tz by simp
  qed
qed

lemma round_half_even_div_pos:
  assumes "0 < den" and "0 \<le> num" and "den < 2 * num"
  shows "0 < round_half_even_div num den"
proof (cases "num div den = 0")
  case True
  then have "num mod den = num" using div_mult_mod_eq [of num den] by simp
  then show ?thesis using assms True by (simp add: round_half_even_div_def Let_def)
next
  case False
  have "0 \<le> num div den" using assms(1,2) by (simp add: pos_imp_zdiv_nonneg_iff)
  then have "0 < num div den" using False by simp
  then show ?thesis by (simp add: round_half_even_div_def Let_def)
qed

lemma floor_log2_reciprocal:
  assumes "0 < m"
  shows "floor_log2_ratio 1 m \<le> 0 \<and> m \<le> 2 ^ nat (- floor_log2_ratio 1 m)"
proof -
  define L where "L = bit_length m"
  have L: "1 \<le> L" "m < 2 ^ nat L"
    using bit_length_pos [OF assms] bit_length_upper [OF assms] by (simp_all add: L_def)
  show ?thesis
  proof (cases "L = 1")
    case True
    then have "m = 1" using L(2) assms by simp
    then show ?thesis by (simp add: floor_log2_ratio_def bit_length_one)
  next
    case False
    then have d: "\<not> 0 \<le> 1 - L" using L(1) by simp
    show ?thesis
    proof (cases "m \<le> 2 ^ nat (L - 1)")
      case True
      then have "floor_log2_ratio 1 m = 1 - L"
        using d by (simp add: floor_log2_ratio_def bit_length_one L_def [symmetric])
      then show ?thesis using True L(1) by simp
    next
      case False
      then have "floor_log2_ratio 1 m = - L"
        using d by (simp add: floor_log2_ratio_def bit_length_one L_def [symmetric])
      then show ?thesis using L by simp
    qed
  qed
qed

lemma reciprocal_not_zero:
  assumes "0 < m" and "bit_length m + e \<le> 1024"
  shows "\<not> is_zero (round_to_double False 1 m (- e))"
proof -
  define fl where "fl = floor_log2_ratio 1 m"
  define x where "x = max (fl + - e) (- 1022) - 52"
  define n where "n = round_half_even_div (1 * 2 ^ nat (- e - x)) m"
  have fl: "fl \<le> 0" "m \<le> 2 ^ nat (- fl)"
    using floor_log2_reciprocal [OF assms(1)] by (simp_all add: fl_def)
  have L: "1 \<le> bit_length m" "m < 2 ^ nat (bit_length m)"
    using bit_length_pos [OF assms(1)] bit_length_upper [OF assms(1)] by simp_all
  have xk: "x \<le> - e" using fl(1) assms(2) L(1) by (simp add: x_def)
  have "m < 2 * 2 ^ nat (- e - x)"
  proof (cases "- 1022 \<le> fl + - e")
    case True
    then have "- e - x = 52 - fl" by (simp add: x_def)
    then have "nat (- fl) \<le> nat (- e - x)" using fl(1) by simp
    then have "(2::int) ^ nat (- fl) \<le> 2 ^ nat (- e - x)" by (rule power_increasing) simp
    moreover have "(0::int) < 2 ^ nat (- e - x)" by simp
    ultimately show ?thesis using fl(2) by linarith
  next
    case False
    then have "- e - x = 1074 - e" by (simp add: x_def)
    then have "nat (bit_length m) \<le> nat (- e - x)" using assms(2) by simp
    then have "(2::int) ^ nat (bit_length m) \<le> 2 ^ nat (- e - x)" by (rule power_increasing) simp
    moreover have "(0::int) < 2 ^ nat (- e - x)" by simp
    ultimately show ?thesis using L(2) by linarith
  qed
  then have n: "0 < n" using round_half_even_div_pos [of m "1 * 2 ^ nat (- e - x)"] assms(1)
    by (simp add: n_def)
  have r: "round_to_double False 1 m (- e) =
      (if 1024 < bit_length n + x then Infinity False
       else (case trim_zeros n x of (m', e') \<Rightarrow> Finite False m' e'))"
    using xk by (simp add: round_to_double_def Let_def x_def n_def fl_def)
  show ?thesis
  proof (cases "1024 < bit_length n + x")
    case True
    then show ?thesis by (simp add: r is_zero_def)
  next
    case False
    obtain m' e' where t: "trim_zeros n x = (m', e')" by (cases "trim_zeros n x")
    then have "0 < m'" using trim_zeros_invariant [OF n t] by simp
    then show ?thesis using False t by (simp add: r is_zero_def)
  qed
qed

lemma js_div_by_zero: "is_zero c \<Longrightarrow> \<not> isFinite (js_div x c)"
  by (cases x; cases c) (simp_all add: is_zero_def isFinite_def)

lemma js_pow_nonfinite_base:
  assumes "\<not> isFinite base" and "exponent \<noteq> NaN" and "\<not> is_zero exponent"
    and "\<not> is_negative exponent"
  shows "\<not> isFinite (js_pow pw base exponent)"
  using assms by (cases base) (auto simp add: js_pow_def isFinite_def split: bool.splits)

lemma js_pow_negative_base:
  assumes "isFinite base" and "is_negative base" and "isFinite exponent"
    and "\<not> is_integral exponent"
  shows "js_pow pw base exponent = NaN"
  using assms
  by (cases base; cases exponent)
    (auto simp add: js_pow_def isFinite_def is_negative_def is_integral_def is_zero_def)

lemma positive_years_form:
  assumes "\<not> js_le (js_sub y c) (number_of_int 0)" and "isFinite (js_sub y c)"
  shows "\<exists>m e. js_sub y c = Finite False m e \<and> 0 < m \<and> bit_length m + e \<le> 1024"
proof -
  obtain s m e where f: "js_sub y c = Finite s m e"
    using assms(2) by (cases "js_sub y c") (simp_all add: isFinite_def)
  have s: "\<not> s" using js_sub_positive_sign [OF assms(1)] by (simp add: f sign_bit_def)
  obtain t n g u p h where yc: "y = Finite t n g" "c = Finite u p h"
    using f by (cases y; cases c) (simp_all add: js_sub_def split: if_splits)
  define d where "d = signed t (n * 2 ^ nat (g - min g h)) + signed (\<not> u) (p * 2 ^ nat (h - min g h))"
  have sub: "js_sub y c = (if d = 0 then Finite (t \<and> \<not> u) 0 0 else round_to_double (d < 0) \<bar>d\<bar> 1 (min g h))"
    by (simp add: yc js_sub_def Let_def d_def)
  have m0: "m \<noteq> 0"
  proof
    assume "m = 0"
    then have "js_le (js_sub y c) (number_of_int 0)"
      by (simp add: f number_of_int_0 signed_def)
    then show False using assms(1) by simp
  qed
  then have "round_to_double (d < 0) \<bar>d\<bar> 1 (min g h) = Finite s m e"
    using sub f by (auto split: if_splits)
  then show ?thesis using round_to_double_bound [of "d < 0" "\<bar>d\<bar>" 1 "min g h" s m e] m0 s f by simp
qed

lemma reciprocal_of_years:
  assumes "\<not> js_le (js_sub y c) (number_of_int 0)" and "isFinite (js_sub y c)"
  shows "js_div (number_of_int 1) (js_sub y c) \<noteq> NaN \<and>
     \<not> is_zero (js_div (number_of_int 1) (js_sub y c)) \<and>
     \<not> is_negative (js_div (number_of_int 1) (js_sub y c))"
proof -
  obtain m e where f: "js_sub y c = Finite False m e" "0 < m" "bit_length m + e \<le> 1024"
    using positive_years_form [OF assms] by blast
  have d: "js_div (number_of_int 1) (js_sub y c) = round_to_double False 1 m (- e)"
    using f(2) by (simp add: f(1) number_of_int_1)
  have "\<not> sign_bit (round_to_double False 1 m (- e))" by (simp add: round_to_double_sign)
  then have "\<not> is_negative (round_to_double False 1 m (- e))"
    by (cases "round_to_double False 1 m (- e)") (simp_all add: is_negative_def sign_bit_def)
  then show ?thesis
    using reciprocal_not_zero [OF f(2,3)] round_to_double_not_NaN [of False 1 m "- e"]
    by (simp add: d)
qed

lemma parseFloat_digits:
  assumes "ds \<noteq> []" and "list_all (is_radix_digit 10) ds"
    and "case rest of [] \<Rightarrow> True
         | c # _ \<Rightarrow> \<not> is_radix_digit 10 c \<and> c \<noteq> CHR ''.'' \<and> c \<noteq> CHR ''e'' \<and> c \<noteq> CHR ''E''"
  shows "parseFloat (ds @ rest) = number_of_int (radix_value 10 ds)"
proof -
  obtain d ds' where ds: "ds = d # ds'" using assms(1) by (cases ds) auto
  have d: "is_radix_digit 10 d" using assms(2) ds by simp
  have t: "dropWhile is_white_space (ds @ rest) = ds @ rest"
    using digit_not_special(1) [OF d] ds by simp
  have sgn: "(case ds @ rest of [] \<Rightarrow> NaN
      | c # r \<Rightarrow>
          if c = CHR ''-'' then str_unsigned_decimal_literal True r
          else if c = CHR ''+'' then str_unsigned_decimal_literal False r
          else str_unsigned_decimal_literal False (ds @ rest)) =
      str_unsigned_decimal_literal False (ds @ rest)"
    using digit_not_special(2,3) [OF d] by (simp add: ds)
  have inf: "take 8 (ds @ rest) \<noteq> ''Infinity''"
    using digit_not_special(6) [OF d] take_Infinity [of d "ds' @ rest"] ds by auto
  have all: "\<And>x. x \<in> set ds \<Longrightarrow> is_radix_digit 10 x"
    using assms(2) by (simp add: list_all_iff)
  have "takeWhile (is_radix_digit 10) rest = []" using assms(3) by (cases rest) auto
  then have ip: "decimal_digits (ds @ rest) = ds"
    using all by (simp add: decimal_digits_def takeWhile_append2)
  have dot: "(case rest of [] \<Rightarrow> False | c # _ \<Rightarrow> c = CHR ''.'') = False"
    using assms(3) by (cases rest) auto
  have ex: "exponent_part rest = 0"
    using assms(3) by (cases rest) (auto simp add: exponent_part_def)
  have lit: "str_unsigned_decimal_literal False (ds @ rest) =
      round_to_double False (radix_value 10 ds) 1 0"
    unfolding str_unsigned_decimal_literal_def Let_def ip
    using inf assms(1) dot ex by simp
  show ?thesis
    unfolding parseFloat_def Let_def t sgn
    using lit by (simp add: number_of_int_nonneg radix_value_nonneg)
qed

lemma calculate_eq:
  "calculateCompoundRate pw cy bd =
     (if isNaN (parseFloat (nominalValue bd)) \<or> isNaN (parseFloat (currentValue bd)) \<or>
         isNaN (parseInt (expirationYear bd)) \<or> isNaN (parseFloat (yearlyInterestRate bd)) \<or>
         js_le (js_sub (parseInt (expirationYear bd)) (number_of_int cy)) (number_of_int 0)
      then None
      else Some
        \<lparr>compoundRate =
           js_pow pw
             (js_div
                (js_add (js_mul (annualInterestOf bd)
                           (js_sub (parseInt (expirationYear bd)) (number_of_int cy)))
                   (parseFloat (nominalValue bd)))
                (parseFloat (currentValue bd)))
             (js_div (number_of_int 1) (js_sub (parseInt (expirationYear bd)) (number_of_int cy))),
         totalInterestPayments =
           js_mul (annualInterestOf bd) (js_sub (parseInt (expirationYear bd)) (number_of_int cy)),
         totalReturn =
           js_add (js_mul (annualInterestOf bd)
                     (js_sub (parseInt (expirationYear bd)) (number_of_int cy)))
             (parseFloat (nominalValue bd)),
         yearsRemaining = js_sub (parseInt (expirationYear bd)) (number_of_int cy)\<rparr>)"
  by (simp add: calculateCompoundRate_def Let_def js_div_100_NaN annualInterestOf_def)

lemma decimal_number_not_NaN: "\<not> isNaN (decimal_number ds fs)"
  by (simp add: decimal_number_def isNaN_def round_to_double_not_NaN)

lemma number_of_int_not_NaN: "\<not> isNaN (number_of_int i)"
  by (simp add: number_of_int_def isNaN_def round_to_double_not_NaN)

section \<open>The claims\<close>

text \<open>
  C1 (as amended). For every text of the four fields and every calendar year, the
  calculation produces a result if and only if none of the four parsed values is NaN
  (an infinite value such as the one of \<open>Infinity\<close> is accepted) and \<open>yearsRemaining\<close>,
  the parsed expiration year minus the current year, is greater than zero. The result
  is a complete \<open>CalculationResult\<close> or absent (\<open>None\<close>).
\<close>

theorem result_exists_iff:
  assumes "calendar_year cy"
  shows "(\<exists>r. calculateCompoundRate pw cy bd = Some r) \<longleftrightarrow>
     \<not> isNaN (parseFloat (nominalValue bd)) \<and> \<not> isNaN (parseFloat (currentValue bd)) \<and>
     \<not> isNaN (parseInt (expirationYear bd)) \<and> \<not> isNaN (parseFloat (yearlyInterestRate bd)) \<and>
     js_lt (number_of_int 0) (js_sub (parseInt (expirationYear bd)) (number_of_int cy))"
proof (cases "isNaN (parseInt (expirationYear bd))")
  case True
  then show ?thesis using calculate_None_iff [of pw cy bd] by auto
next
  case False
  then have "js_sub (parseInt (expirationYear bd)) (number_of_int cy) \<noteq> NaN"
    using calendar_year_finite [OF assms] by (simp add: js_sub_not_NaN isNaN_def)
  then have "js_lt (number_of_int 0) (js_sub (parseInt (expirationYear bd)) (number_of_int cy)) =
      (\<not> js_le (js_sub (parseInt (expirationYear bd)) (number_of_int cy)) (number_of_int 0))"
    by (simp add: js_lt_iff_not_le number_of_int_0)
  then show ?thesis using calculate_None_iff [of pw cy bd] by auto
qed

theorem result_exists_iff_witness:
  "calendar_year 2025 \<and>
   (\<forall>pw. \<exists>r. calculateCompoundRate pw 2025
      \<lparr>nominalValue = ''1000'', currentValue = ''900'', expirationYear = ''2030'',
       yearlyInterestRate = ''2.5''\<rparr> = Some r)"
proof -
  have y: "calendar_year 2025" by (simp add: calendar_year_def)
  have "\<not> isNaN (parseFloat ''1000'') \<and> \<not> isNaN (parseFloat ''900'') \<and>
     \<not> isNaN (parseInt ''2030'') \<and> \<not> isNaN (parseFloat ''2.5'') \<and>
     js_lt (number_of_int 0) (js_sub (parseInt ''2030'') (number_of_int 2025))"
    by code_simp
  then show ?thesis using y result_exists_iff [OF y] by simp
qed

text \<open>
  C1 as stated asks for finite values: with the nominal value \<open>Infinity\<close> a field does
  not parse to a finite number, and still a result is produced.
\<close>

theorem infinite_field_counterexample:
  "\<not> isFinite (parseFloat ''Infinity'') \<and>
   (\<forall>pw. calculateCompoundRate pw 2025
      \<lparr>nominalValue = ''Infinity'', currentValue = ''900'', expirationYear = ''2030'',
       yearlyInterestRate = ''2.5''\<rparr> =
     Some \<lparr>compoundRate = Infinity False, totalInterestPayments = Infinity False,
           totalReturn = Infinity False, yearsRemaining = number_of_int 5\<rparr>)"
proof (intro conjI allI)
  show "\<not> isFinite (parseFloat ''Infinity'')" by code_simp
next
  fix pw
  show "calculateCompoundRate pw 2025
      \<lparr>nominalValue = ''Infinity'', currentValue = ''900'', expirationYear = ''2030'',
       yearlyInterestRate = ''2.5''\<rparr> =
     Some \<lparr>compoundRate = Infinity False, totalInterestPayments = Infinity False,
           totalReturn = Infinity False, yearsRemaining = number_of_int 5\<rparr>"
    by code_simp
qed

text \<open>
  C2. When all four fields parse and \<open>yearsRemaining > 0\<close>, the result holds
  \<open>annualInterest = nominalValue * (yearlyInterestRate / 100)\<close>,
  \<open>totalInterestPayments = annualInterest * yearsRemaining\<close>,
  \<open>totalReturn = totalInterestPayments + nominalValue\<close> and
  \<open>compoundRate = (totalReturn / currentValue) ^ (1 / yearsRemaining)\<close>, each operation
  the Number operation, in this order.
\<close>

theorem result_formulas:
  assumes "\<not> isNaN (parseFloat (nominalValue bd))" and "\<not> isNaN (parseFloat (currentValue bd))"
    and "\<not> isNaN (parseInt (expirationYear bd))" and "\<not> isNaN (parseFloat (yearlyInterestRate bd))"
    and "js_lt (number_of_int 0) (js_sub (parseInt (expirationYear bd)) (number_of_int cy))"
  shows "\<exists>r. calculateCompoundRate pw cy bd = Some r \<and>
     yearsRemaining r = js_sub (parseInt (expirationYear bd)) (number_of_int cy) \<and>
     annualInterestOf bd =
       js_mul (parseFloat (nominalValue bd))
         (js_div (parseFloat (yearlyInterestRate bd)) (number_of_int 100)) \<and>
     totalInterestPayments r = js_mul (annualInterestOf bd) (yearsRemaining r) \<and>
     totalReturn r = js_add (totalInterestPayments r) (parseFloat (nominalValue bd)) \<and>
     compoundRate r =
       js_pow pw (js_div (totalReturn r) (parseFloat (currentValue bd)))
         (js_div (number_of_int 1) (yearsRemaining r))"
proof -
  have "\<not> js_le (js_sub (parseInt (expirationYear bd)) (number_of_int cy)) (number_of_int 0)"
    using assms(5) by (simp add: js_lt_def)
  then show ?thesis
    using assms(1-4) by (simp add: calculate_Some Let_def annualInterestOf_def)
qed

theorem result_formulas_witness:
  "\<forall>pw. (\<not> isNaN (parseFloat ''1000'') \<and> \<not> isNaN (parseFloat ''900'') \<and>
      \<not> isNaN (parseInt ''2030'') \<and> \<not> isNaN (parseFloat ''2.5'') \<and>
      js_lt (number_of_int 0) (js_sub (parseInt ''2030'') (number_of_int 2025))) \<and>
    (\<exists>r. calculateCompoundRate pw 2025
        \<lparr>nominalValue = ''1000'', currentValue = ''900'', expirationYear = ''2030'',
         yearlyInterestRate = ''2.5''\<rparr> = Some r \<and>
      yearsRemaining r = number_of_int 5 \<and>
      totalInterestPayments r = number_of_int 125 \<and>
      totalReturn r = number_of_int 1125 \<and>
      compoundRate r = js_pow pw (js_div (number_of_int 1125) (number_of_int 900))
         (js_div (number_of_int 1) (number_of_int 5)))"
proof
  fix pw
  let ?bd = "\<lparr>nominalValue = ''1000'', currentValue = ''900'', expirationYear = ''2030'',
         yearlyInterestRate = ''2.5''\<rparr>"
  have h: "\<not> isNaN (parseFloat (nominalValue ?bd))" "\<not> isNaN (parseFloat (currentValue ?bd))"
    "\<not> isNaN (parseInt (expirationYear ?bd))" "\<not> isNaN (parseFloat (yearlyInterestRate ?bd))"
    "js_lt (number_of_int 0) (js_sub (parseInt (expirationYear ?bd)) (number_of_int 2025))"
    by code_simp+
  have v: "js_sub (parseInt ''2030'') (number_of_int 2025) = number_of_int 5"
    "js_mul (annualInterestOf ?bd) (number_of_int 5) = number_of_int 125"
    "js_add (number_of_int 125) (parseFloat ''1000'') = number_of_int 1125"
    "parseFloat ''900'' = number_of_int 900"
    by code_simp+
  from result_formulas [OF h, of pw] obtain r where
    r: "calculateCompoundRate pw 2025 ?bd = Some r"
      "yearsRemaining r = js_sub (parseInt ''2030'') (number_of_int 2025)"
      "totalInterestPayments r = js_mul (annualInterestOf ?bd) (yearsRemaining r)"
      "totalReturn r = js_add (totalInterestPayments r) (parseFloat ''1000'')"
      "compoundRate r = js_pow pw (js_div (totalReturn r) (parseFloat ''900''))
         (js_div (number_of_int 1) (yearsRemaining r))"
    by auto
  have "yearsRemaining r = number_of_int 5" using r(2) v(1) by simp
  moreover have "totalInterestPayments r = number_of_int 125" using r(3) calculation v(2) by simp
  moreover have "totalReturn r = number_of_int 1125" using r(4) calculation v(3) by simp
  ultimately show "(\<not> isNaN (parseFloat ''1000'') \<and> \<not> isNaN (parseFloat ''900'') \<and>
      \<not> isNaN (parseInt ''2030'') \<and> \<not> isNaN (parseFloat ''2.5'') \<and>
      js_lt (number_of_int 0) (js_sub (parseInt ''2030'') (number_of_int 2025))) \<and>
    (\<exists>r. calculateCompoundRate pw 2025 ?bd = Some r \<and>
      yearsRemaining r = number_of_int 5 \<and>
      totalInterestPayments r = number_of_int 125 \<and>
      totalReturn r = number_of_int 1125 \<and>
      compoundRate r = js_pow pw (js_div (number_of_int 1125) (number_of_int 900))
         (js_div (number_of_int 1) (number_of_int 5)))"
    using h r(1) r(5) v(4) by simp
qed

text \<open>
  C3. If the expiration year is less than or equal to the current calendar year
  (\<open>yearsRemaining <= 0\<close>), the result is absent, whatever the other three fields hold.
\<close>

theorem expired_absent:
  assumes "calendar_year cy"
    and "js_le (parseInt (expirationYear bd)) (number_of_int cy) \<or>
         js_le (js_sub (parseInt (expirationYear bd)) (number_of_int cy)) (number_of_int 0)"
  shows "calculateCompoundRate pw cy bd = None"
  using assms(2) js_sub_le_zero [OF _ calendar_year_finite [OF assms(1)]]
  by (auto simp add: calculate_None_iff)

theorem expired_absent_witness:
  "calendar_year 2025 \<and> js_le (parseInt ''2025'') (number_of_int 2025) \<and>
   js_le (js_sub (parseInt ''2025'') (number_of_int 2025)) (number_of_int 0) \<and>
   (\<forall>pw. calculateCompoundRate pw 2025
      \<lparr>nominalValue = ''1000'', currentValue = ''900'', expirationYear = ''2025'',
       yearlyInterestRate = ''2.5''\<rparr> = None)"
proof -
  have y: "calendar_year 2025" by (simp add: calendar_year_def)
  have l: "js_le (parseInt ''2025'') (number_of_int 2025)" 
    "js_le (js_sub (parseInt ''2025'') (number_of_int 2025)) (number_of_int 0)" by code_simp+
  show ?thesis using y l expired_absent [OF y, of "\<lparr>nominalValue = ''1000'', currentValue = ''900'', expirationYear = ''2025'',
       yearlyInterestRate = ''2.5''\<rparr>"] by simp
qed

text \<open>
  C4 (as amended). If any one of the four fields has no number at its start (it is
  empty, or white space only, or starts after the white space with a character that
  begins no number, or its parse is NaN for another reason, as for a lone sign), the
  result is absent. Text after a number is ignored: when a field holds decimal digits
  followed by a character at which its number ends, the result is the one for the digits
  alone, and it is present whenever the digits alone, with the other fields, meet the
  conditions for a result.
\<close>

theorem no_number_absent:
  "(no_number_start (nominalValue bd) \<or> isNaN (parseFloat (nominalValue bd)) \<or>
    no_number_start (currentValue bd) \<or> isNaN (parseFloat (currentValue bd)) \<or>
    no_number_start (expirationYear bd) \<or> isNaN (parseInt (expirationYear bd)) \<or>
    no_number_start (yearlyInterestRate bd) \<or> isNaN (parseFloat (yearlyInterestRate bd))
    \<longrightarrow> no_number_start [] \<and> calculateCompoundRate pw cy bd = None) \<and>
   (ds \<noteq> [] \<and> list_all (is_radix_digit 10) ds \<and> ignored_after f ds c
    \<longrightarrow> calculateCompoundRate pw cy (handleInputChange f (ds @ c # cs) bd) =
        calculateCompoundRate pw cy (handleInputChange f ds bd) \<and>
        (\<not> isNaN (parseFloat (nominalValue (handleInputChange f ds bd))) \<and>
         \<not> isNaN (parseFloat (currentValue (handleInputChange f ds bd))) \<and>
         \<not> isNaN (parseInt (expirationYear (handleInputChange f ds bd))) \<and>
         \<not> isNaN (parseFloat (yearlyInterestRate (handleInputChange f ds bd))) \<and>
         js_lt (number_of_int 0)
           (js_sub (parseInt (expirationYear (handleInputChange f ds bd))) (number_of_int cy))
         \<longrightarrow> (\<exists>r. calculateCompoundRate pw cy (handleInputChange f (ds @ c # cs) bd) =
                Some r)))"
proof (intro conjI impI)
  assume "no_number_start (nominalValue bd) \<or> isNaN (parseFloat (nominalValue bd)) \<or>
    no_number_start (currentValue bd) \<or> isNaN (parseFloat (currentValue bd)) \<or>
    no_number_start (expirationYear bd) \<or> isNaN (parseInt (expirationYear bd)) \<or>
    no_number_start (yearlyInterestRate bd) \<or> isNaN (parseFloat (yearlyInterestRate bd))"
  then have "isNaN (parseFloat (nominalValue bd)) \<or> isNaN (parseFloat (currentValue bd)) \<or>
        isNaN (parseInt (expirationYear bd)) \<or> isNaN (parseFloat (yearlyInterestRate bd))"
    using parseFloat_no_number parseInt_no_number by (auto simp add: isNaN_def)
  then show "calculateCompoundRate pw cy bd = None" by (auto simp add: calculate_None_iff)
next
  show "no_number_start []" by (simp add: no_number_start_def)
next
  assume a: "ds \<noteq> [] \<and> list_all (is_radix_digit 10) ds \<and> ignored_after f ds c"
  show eq: "calculateCompoundRate pw cy (handleInputChange f (ds @ c # cs) bd) =
        calculateCompoundRate pw cy (handleInputChange f ds bd)"
  proof (cases "f = ExpirationYearField")
    case True
    have "parseInt (ds @ c # cs) = number_of_int (radix_value 10 ds)"
      using parseInt_digits [of ds "c # cs"] a True by (simp add: ignored_after_def)
    moreover have "parseInt ds = number_of_int (radix_value 10 ds)"
      using parseInt_digits [of ds "[]"] a by simp
    ultimately show ?thesis
      using True by (simp add: handleInputChange_def calculateCompoundRate_def)
  next
    case False
    have "parseFloat (ds @ c # cs) = number_of_int (radix_value 10 ds)"
      using parseFloat_digits [of ds "c # cs"] a False by (simp add: ignored_after_def)
    moreover have "parseFloat ds = number_of_int (radix_value 10 ds)"
      using parseFloat_digits [of ds "[]"] a by simp
    ultimately show ?thesis
      using False by (cases f) (simp_all add: handleInputChange_def calculateCompoundRate_def)
  qed
  assume "\<not> isNaN (parseFloat (nominalValue (handleInputChange f ds bd))) \<and>
         \<not> isNaN (parseFloat (currentValue (handleInputChange f ds bd))) \<and>
         \<not> isNaN (parseInt (expirationYear (handleInputChange f ds bd))) \<and>
         \<not> isNaN (parseFloat (yearlyInterestRate (handleInputChange f ds bd))) \<and>
         js_lt (number_of_int 0)
           (js_sub (parseInt (expirationYear (handleInputChange f ds bd))) (number_of_int cy))"
  then have "calculateCompoundRate pw cy (handleInputChange f ds bd) \<noteq> None"
    by (simp add: calculate_None_iff js_lt_def)
  then show "\<exists>r. calculateCompoundRate pw cy (handleInputChange f (ds @ c # cs) bd) = Some r"
    using eq by auto
qed

theorem no_number_absent_witness:
  "no_number_start ''abc'' \<and> isNaN (parseFloat ''-'') \<and>
   ''1000'' \<noteq> [] \<and> list_all (is_radix_digit 10) ''1000'' \<and>
   ignored_after NominalValueField ''1000'' CHR ''a'' \<and>
   ''2030'' \<noteq> [] \<and> list_all (is_radix_digit 10) ''2030'' \<and>
   ignored_after ExpirationYearField ''2030'' CHR ''.'' \<and>
   (\<forall>pw. calculateCompoundRate pw 2025
      \<lparr>nominalValue = ''1000'', currentValue = ''abc'', expirationYear = ''2030'',
       yearlyInterestRate = ''2.5''\<rparr> = None \<and>
     calculateCompoundRate pw 2025
      \<lparr>nominalValue = ''1000'', currentValue = ''900'', expirationYear = ''2030'',
       yearlyInterestRate = []\<rparr> = None \<and>
     calculateCompoundRate pw 2025
      \<lparr>nominalValue = ''-'', currentValue = ''900'', expirationYear = ''2030'',
       yearlyInterestRate = ''2.5''\<rparr> = None \<and>
     calculateCompoundRate pw 2025
      \<lparr>nominalValue = ''1000abc'', currentValue = ''900'', expirationYear = ''2030'',
       yearlyInterestRate = ''2.5''\<rparr> =
     calculateCompoundRate pw 2025
      \<lparr>nominalValue = ''1000'', currentValue = ''900'', expirationYear = ''2030'',
       yearlyInterestRate = ''2.5''\<rparr> \<and>
     calculateCompoundRate pw 2025
      \<lparr>nominalValue = ''1000'', currentValue = ''900'', expirationYear = ''2030.9'',
       yearlyInterestRate = ''2.5''\<rparr> =
     calculateCompoundRate pw 2025
      \<lparr>nominalValue = ''1000'', currentValue = ''900'', expirationYear = ''2030'',
       yearlyInterestRate = ''2.5''\<rparr> \<and>
     (\<exists>r. calculateCompoundRate pw 2025
      \<lparr>nominalValue = ''1000abc'', currentValue = ''900'', expirationYear = ''2030'',
       yearlyInterestRate = ''2.5''\<rparr> = Some r))"
proof -
  let ?bd = "\<lparr>nominalValue = ''1000'', currentValue = ''900'', expirationYear = ''2030'',
       yearlyInterestRate = ''2.5''\<rparr>"
  have a: "no_number_start ''abc''" "no_number_start []" "isNaN (parseFloat ''-'')"
    by code_simp+
  have b: "''1000'' \<noteq> [] \<and> list_all (is_radix_digit 10) ''1000'' \<and>
      ignored_after NominalValueField ''1000'' CHR ''a''"
    "''2030'' \<noteq> [] \<and> list_all (is_radix_digit 10) ''2030'' \<and>
      ignored_after ExpirationYearField ''2030'' CHR ''.''"
    by code_simp+
  have n: "calculateCompoundRate pw 2025
      \<lparr>nominalValue = ''1000'', currentValue = ''abc'', expirationYear = ''2030'',
       yearlyInterestRate = ''2.5''\<rparr> = None"
    "calculateCompoundRate pw 2025
      \<lparr>nominalValue = ''1000'', currentValue = ''900'', expirationYear = ''2030'',
       yearlyInterestRate = []\<rparr> = None"
    "calculateCompoundRate pw 2025
      \<lparr>nominalValue = ''-'', currentValue = ''900'', expirationYear = ''2030'',
       yearlyInterestRate = ''2.5''\<rparr> = None" for pw
    using a
      no_number_absent [of "\<lparr>nominalValue = ''1000'', currentValue = ''abc'',
        expirationYear = ''2030'', yearlyInterestRate = ''2.5''\<rparr>" pw 2025]
      no_number_absent [of "\<lparr>nominalValue = ''1000'', currentValue = ''900'',
        expirationYear = ''2030'', yearlyInterestRate = []\<rparr>" pw 2025]
      no_number_absent [of "\<lparr>nominalValue = ''-'', currentValue = ''900'',
        expirationYear = ''2030'', yearlyInterestRate = ''2.5''\<rparr>" pw 2025]
    by simp_all
  have e1: "calculateCompoundRate pw 2025 (handleInputChange NominalValueField (''1000'' @ CHR ''a'' # ''bc'') ?bd) =
      calculateCompoundRate pw 2025 (handleInputChange NominalValueField ''1000'' ?bd)" for pw
    using no_number_absent [of ?bd pw 2025 "''1000''" NominalValueField "CHR ''a''" "''bc''"] b(1)
    by blast
  have e2: "calculateCompoundRate pw 2025 (handleInputChange ExpirationYearField (''2030'' @ CHR ''.'' # ''9'') ?bd) =
      calculateCompoundRate pw 2025 (handleInputChange ExpirationYearField ''2030'' ?bd)" for pw
    using no_number_absent [of ?bd pw 2025 "''2030''" ExpirationYearField "CHR ''.''" "''9''"] b(2)
    by blast
  have s: "\<exists>r. calculateCompoundRate pw 2025
      (handleInputChange NominalValueField (''1000'' @ CHR ''a'' # ''bc'') ?bd) = Some r" for pw
  proof -
    have "\<not> isNaN (parseFloat (nominalValue (handleInputChange NominalValueField ''1000'' ?bd))) \<and>
       \<not> isNaN (parseFloat (currentValue (handleInputChange NominalValueField ''1000'' ?bd))) \<and>
       \<not> isNaN (parseInt (expirationYear (handleInputChange NominalValueField ''1000'' ?bd))) \<and>
       \<not> isNaN (parseFloat (yearlyInterestRate (handleInputChange NominalValueField ''1000'' ?bd))) \<and>
       js_lt (number_of_int 0)
         (js_sub (parseInt (expirationYear (handleInputChange NominalValueField ''1000'' ?bd)))
            (number_of_int 2025))"
      by code_simp
    then show ?thesis
      using no_number_absent [of ?bd pw 2025 "''1000''" NominalValueField "CHR ''a''" "''bc''"] b(1)
      by blast
  qed
  show ?thesis
    using a(1,3) b n e1 e2 s by (simp add: handleInputChange_def)
qed

text \<open>
  C4 as stated fails for non-numeric text after a number: the nominal value \<open>1000abc\<close>
  is read as \<open>1000\<close>, and the result is the one of the spec's first scenario.
\<close>

theorem trailing_text_counterexample:
  "list_ex (\<lambda>c. c \<notin> set ''0123456789+-.eE'') ''1000abc'' \<and>
   (\<forall>pw. \<exists>r. calculateCompoundRate pw 2025
      \<lparr>nominalValue = ''1000abc'', currentValue = ''900'', expirationYear = ''2030'',
       yearlyInterestRate = ''2.5''\<rparr> = Some r \<and>
     totalInterestPayments r = number_of_int 125 \<and> totalReturn r = number_of_int 1125 \<and>
     yearsRemaining r = number_of_int 5)"
proof (intro conjI allI)
  show "list_ex (\<lambda>c. c \<notin> set ''0123456789+-.eE'') ''1000abc''" by simp
next
  fix pw
  have "calculateCompoundRate pw 2025
      \<lparr>nominalValue = ''1000abc'', currentValue = ''900'', expirationYear = ''2030'',
       yearlyInterestRate = ''2.5''\<rparr> =
    Some \<lparr>compoundRate = pw (Finite False 5 (- 2)) (Finite False 3602879701896397 (- 54)),
          totalInterestPayments = number_of_int 125, totalReturn = number_of_int 1125,
          yearsRemaining = number_of_int 5\<rparr>"
    by code_simp
  then show "\<exists>r. calculateCompoundRate pw 2025
      \<lparr>nominalValue = ''1000abc'', currentValue = ''900'', expirationYear = ''2030'',
       yearlyInterestRate = ''2.5''\<rparr> = Some r \<and>
     totalInterestPayments r = number_of_int 125 \<and> totalReturn r = number_of_int 1125 \<and>
     yearsRemaining r = number_of_int 5"
    by simp
qed

text \<open>
  C5 (as amended). When all four fields parse, \<open>yearsRemaining > 0\<close> and the current value
  is zero or negative, the absent branch is not taken: a result is produced, and its
  \<open>compoundRate\<close> is what the division and \<open>Math.pow\<close> give, with no guard. For a current
  value of zero (and a finite number of years) that value is an infinity or NaN; for a
  negative finite quotient \<open>totalReturn / currentValue\<close> and a non-integral
  \<open>1 / yearsRemaining\<close> it is NaN.
\<close>

theorem nonpositive_current_not_guarded:
  assumes "\<not> isNaN (parseFloat (nominalValue bd))" and "\<not> isNaN (parseFloat (currentValue bd))"
    and "\<not> isNaN (parseInt (expirationYear bd))" and "\<not> isNaN (parseFloat (yearlyInterestRate bd))"
    and "js_lt (number_of_int 0) (js_sub (parseInt (expirationYear bd)) (number_of_int cy))"
    and "js_le (parseFloat (currentValue bd)) (number_of_int 0)"
  shows "\<exists>r. calculateCompoundRate pw cy bd = Some r \<and>
     compoundRate r =
       js_pow pw (js_div (totalReturn r) (parseFloat (currentValue bd)))
         (js_div (number_of_int 1) (yearsRemaining r)) \<and>
     (is_zero (parseFloat (currentValue bd)) \<and> isFinite (yearsRemaining r) \<longrightarrow>
        \<not> isFinite (compoundRate r)) \<and>
     (isFinite (js_div (totalReturn r) (parseFloat (currentValue bd))) \<and>
      is_negative (js_div (totalReturn r) (parseFloat (currentValue bd))) \<and>
      isFinite (js_div (number_of_int 1) (yearsRemaining r)) \<and>
      \<not> is_integral (js_div (number_of_int 1) (yearsRemaining r)) \<longrightarrow>
        compoundRate r = NaN)"
proof -
  let ?years = "js_sub (parseInt (expirationYear bd)) (number_of_int cy)"
  have pos: "\<not> js_le ?years (number_of_int 0)"
    using assms(5) by (simp add: js_lt_def)
  then obtain r where r: "calculateCompoundRate pw cy bd = Some r"
    using assms(1-4) calculate_None_iff [of pw cy bd] by auto
  note d = calculate_SomeD [OF r]
  have y: "yearsRemaining r = ?years" using d by simp
  have a: "\<not> isFinite (compoundRate r)"
    if "is_zero (parseFloat (currentValue bd))" and "isFinite (yearsRemaining r)"
  proof -
    have "\<not> isFinite (js_div (totalReturn r) (parseFloat (currentValue bd)))"
      using that(1) by (rule js_div_by_zero)
    moreover have "js_div (number_of_int 1) ?years \<noteq> NaN \<and>
        \<not> is_zero (js_div (number_of_int 1) ?years) \<and>
        \<not> is_negative (js_div (number_of_int 1) ?years)"
      using pos that(2) unfolding y by (rule reciprocal_of_years)
    ultimately show ?thesis using d by (simp add: js_pow_nonfinite_base)
  qed
  have b: "compoundRate r = NaN"
    if "isFinite (js_div (totalReturn r) (parseFloat (currentValue bd)))"
      and "is_negative (js_div (totalReturn r) (parseFloat (currentValue bd)))"
      and "isFinite (js_div (number_of_int 1) (yearsRemaining r))"
      and "\<not> is_integral (js_div (number_of_int 1) (yearsRemaining r))"
    using that d by (simp add: js_pow_negative_base)
  show ?thesis using r d a b by blast
qed

theorem nonpositive_current_not_guarded_witness:
  "\<forall>pw. (\<not> isNaN (parseFloat ''1000'') \<and> \<not> isNaN (parseFloat ''0'') \<and>
      \<not> isNaN (parseInt ''2030'') \<and> \<not> isNaN (parseFloat ''2.5'') \<and>
      js_lt (number_of_int 0) (js_sub (parseInt ''2030'') (number_of_int 2025)) \<and>
      js_le (parseFloat ''0'') (number_of_int 0) \<and> is_zero (parseFloat ''0'')) \<and>
    (\<exists>r. calculateCompoundRate pw 2025
        \<lparr>nominalValue = ''1000'', currentValue = ''0'', expirationYear = ''2030'',
         yearlyInterestRate = ''2.5''\<rparr> = Some r \<and>
      isFinite (yearsRemaining r) \<and> \<not> isFinite (compoundRate r) \<and>
      compoundRate r = Infinity False) \<and>
    (\<not> isNaN (parseFloat ''-900'') \<and> js_le (parseFloat ''-900'') (number_of_int 0)) \<and>
    (\<exists>r. calculateCompoundRate pw 2025
        \<lparr>nominalValue = ''1000'', currentValue = ''-900'', expirationYear = ''2030'',
         yearlyInterestRate = ''2.5''\<rparr> = Some r \<and>
      compoundRate r = NaN)"
proof
  fix pw
  let ?bd = "\<lparr>nominalValue = ''1000'', currentValue = ''0'', expirationYear = ''2030'',
         yearlyInterestRate = ''2.5''\<rparr>"
  let ?bn = "\<lparr>nominalValue = ''1000'', currentValue = ''-900'', expirationYear = ''2030'',
         yearlyInterestRate = ''2.5''\<rparr>"
  have h: "\<not> isNaN (parseFloat (nominalValue ?bd))" "\<not> isNaN (parseFloat (currentValue ?bd))"
    "\<not> isNaN (parseInt (expirationYear ?bd))" "\<not> isNaN (parseFloat (yearlyInterestRate ?bd))"
    "js_lt (number_of_int 0) (js_sub (parseInt (expirationYear ?bd)) (number_of_int 2025))"
    "js_le (parseFloat (currentValue ?bd)) (number_of_int 0)"
    by code_simp+
  have g: "\<not> isNaN (parseFloat (nominalValue ?bn))" "\<not> isNaN (parseFloat (currentValue ?bn))"
    "\<not> isNaN (parseInt (expirationYear ?bn))" "\<not> isNaN (parseFloat (yearlyInterestRate ?bn))"
    "js_lt (number_of_int 0) (js_sub (parseInt (expirationYear ?bn)) (number_of_int 2025))"
    "js_le (parseFloat (currentValue ?bn)) (number_of_int 0)"
    by code_simp+
  have z: "is_zero (parseFloat ''0'')" by code_simp
  have v: "calculateCompoundRate pw 2025 ?bd =
      Some \<lparr>compoundRate = Infinity False, totalInterestPayments = number_of_int 125,
            totalReturn = number_of_int 1125, yearsRemaining = number_of_int 5\<rparr>"
    "calculateCompoundRate pw 2025 ?bn =
      Some \<lparr>compoundRate = NaN, totalInterestPayments = number_of_int 125,
            totalReturn = number_of_int 1125, yearsRemaining = number_of_int 5\<rparr>"
    by code_simp+
  have f: "isFinite (number_of_int 5)" by code_simp
  from nonpositive_current_not_guarded [OF h, of pw] obtain r where
    r: "calculateCompoundRate pw 2025 ?bd = Some r"
      "is_zero (parseFloat (currentValue ?bd)) \<and> isFinite (yearsRemaining r) \<longrightarrow>
        \<not> isFinite (compoundRate r)"
    by blast
  have r': "isFinite (yearsRemaining r)" "compoundRate r = Infinity False"
    using r(1) v(1) f by auto
  then have "\<not> isFinite (compoundRate r)" using r(2) z by simp
  then have 1: "\<exists>r. calculateCompoundRate pw 2025 ?bd = Some r \<and>
      isFinite (yearsRemaining r) \<and> \<not> isFinite (compoundRate r) \<and>
      compoundRate r = Infinity False"
    using r(1) r' by blast
  from nonpositive_current_not_guarded [OF g, of pw] obtain q where
    "calculateCompoundRate pw 2025 ?bn = Some q" by blast
  then have 2: "\<exists>r. calculateCompoundRate pw 2025 ?bn = Some r \<and> compoundRate r = NaN"
    using v(2) by auto
  show "(\<not> isNaN (parseFloat ''1000'') \<and> \<not> isNaN (parseFloat ''0'') \<and>
      \<not> isNaN (parseInt ''2030'') \<and> \<not> isNaN (parseFloat ''2.5'') \<and>
      js_lt (number_of_int 0) (js_sub (parseInt ''2030'') (number_of_int 2025)) \<and>
      js_le (parseFloat ''0'') (number_of_int 0) \<and> is_zero (parseFloat ''0'')) \<and>
    (\<exists>r. calculateCompoundRate pw 2025 ?bd = Some r \<and>
      isFinite (yearsRemaining r) \<and> \<not> isFinite (compoundRate r) \<and>
      compoundRate r = Infinity False) \<and>
    (\<not> isNaN (parseFloat ''-900'') \<and> js_le (parseFloat ''-900'') (number_of_int 0)) \<and>
    (\<exists>r. calculateCompoundRate pw 2025 ?bn = Some r \<and> compoundRate r = NaN)"
    using h g z 1 2 by simp
qed

text \<open>
  C5 as stated calls the passed-through value infinite or undefined. With the nominal
  value \<open>0\<close> and the current value \<open>-900\<close> the quotient is \<open>-0\<close> and \<open>compoundRate\<close> is
  the finite \<open>+0\<close>; with the nominal value \<open>-1000\<close> the quotient is \<open>1.25\<close> and
  \<open>compoundRate\<close> is the ordinary power \<open>1.25 ^ 0.2\<close>.
\<close>

theorem finite_rate_counterexample:
  "\<forall>pw. (\<not> isNaN (parseFloat ''0'') \<and> \<not> isNaN (parseFloat ''-900'') \<and>
      \<not> isNaN (parseInt ''2030'') \<and> \<not> isNaN (parseFloat ''2.5'') \<and>
      js_lt (number_of_int 0) (js_sub (parseInt ''2030'') (number_of_int 2025)) \<and>
      js_le (parseFloat ''-900'') (number_of_int 0)) \<and>
    calculateCompoundRate pw 2025
        \<lparr>nominalValue = ''0'', currentValue = ''-900'', expirationYear = ''2030'',
         yearlyInterestRate = ''2.5''\<rparr> =
      Some \<lparr>compoundRate = Finite False 0 0, totalInterestPayments = Finite False 0 0,
            totalReturn = Finite False 0 0, yearsRemaining = number_of_int 5\<rparr> \<and>
    isFinite (Finite False 0 0) \<and>
    \<not> isNaN (parseFloat ''-1000'') \<and>
    calculateCompoundRate pw 2025
        \<lparr>nominalValue = ''-1000'', currentValue = ''-900'', expirationYear = ''2030'',
         yearlyInterestRate = ''2.5''\<rparr> =
      Some \<lparr>compoundRate = pw (Finite False 5 (- 2)) (Finite False 3602879701896397 (- 54)),
            totalInterestPayments = number_of_int (- 125),
            totalReturn = number_of_int (- 1125), yearsRemaining = number_of_int 5\<rparr>"
proof
  fix pw
  have h: "\<not> isNaN (parseFloat ''0'')" "\<not> isNaN (parseFloat ''-900'')"
      "\<not> isNaN (parseInt ''2030'')" "\<not> isNaN (parseFloat ''2.5'')"
      "js_lt (number_of_int 0) (js_sub (parseInt ''2030'') (number_of_int 2025))"
      "js_le (parseFloat ''-900'') (number_of_int 0)"
      "isFinite (Finite False 0 0)" "\<not> isNaN (parseFloat ''-1000'')"
    by code_simp+
  have v: "calculateCompoundRate pw 2025
        \<lparr>nominalValue = ''0'', currentValue = ''-900'', expirationYear = ''2030'',
         yearlyInterestRate = ''2.5''\<rparr> =
      Some \<lparr>compoundRate = Finite False 0 0, totalInterestPayments = Finite False 0 0,
            totalReturn = Finite False 0 0, yearsRemaining = number_of_int 5\<rparr>"
    "calculateCompoundRate pw 2025
        \<lparr>nominalValue = ''-1000'', currentValue = ''-900'', expirationYear = ''2030'',
         yearlyInterestRate = ''2.5''\<rparr> =
      Some \<lparr>compoundRate = pw (Finite False 5 (- 2)) (Finite False 3602879701896397 (- 54)),
            totalInterestPayments = number_of_int (- 125),
            totalReturn = number_of_int (- 1125), yearsRemaining = number_of_int 5\<rparr>"
    by code_simp+
  show "(\<not> isNaN (parseFloat ''0'') \<and> \<not> isNaN (parseFloat ''-900'') \<and>
      \<not> isNaN (parseInt ''2030'') \<and> \<not> isNaN (parseFloat ''2.5'') \<and>
      js_lt (number_of_int 0) (js_sub (parseInt ''2030'') (number_of_int 2025)) \<and>
      js_le (parseFloat ''-900'') (number_of_int 0)) \<and>
    calculateCompoundRate pw 2025
        \<lparr>nominalValue = ''0'', currentValue = ''-900'', expirationYear = ''2030'',
         yearlyInterestRate = ''2.5''\<rparr> =
      Some \<lparr>compoundRate = Finite False 0 0, totalInterestPayments = Finite False 0 0,
            totalReturn = Finite False 0 0, yearsRemaining = number_of_int 5\<rparr> \<and>
    isFinite (Finite False 0 0) \<and>
    \<not> isNaN (parseFloat ''-1000'') \<and>
    calculateCompoundRate pw 2025
        \<lparr>nominalValue = ''-1000'', currentValue = ''-900'', expirationYear = ''2030'',
         yearlyInterestRate = ''2.5''\<rparr> =
      Some \<lparr>compoundRate = pw (Finite False 5 (- 2)) (Finite False 3602879701896397 (- 54)),
            totalInterestPayments = number_of_int (- 125),
            totalReturn = number_of_int (- 1125), yearsRemaining = number_of_int 5\<rparr>"
    using h v by simp
qed

text \<open>
  C6. Two runs of the calculation on the same four texts in the same calendar year
  produce the same result, whatever result the component held before; and a second run
  changes nothing.
\<close>

theorem recompute_deterministic:
  fixes c1 c2 :: Component
  assumes "nominalValue (bondData c1) = nominalValue (bondData c2)"
    and "currentValue (bondData c1) = currentValue (bondData c2)"
    and "expirationYear (bondData c1) = expirationYear (bondData c2)"
    and "yearlyInterestRate (bondData c1) = yearlyInterestRate (bondData c2)"
  shows "result (recompute pw cy c1) = result (recompute pw cy c2) \<and>
         recompute pw cy (recompute pw cy c1) = recompute pw cy c1"
  using assms by (simp add: recompute_def calculateCompoundRate_def)

theorem recompute_deterministic_witness:
  "\<forall>pw. result (recompute pw 2025
       \<lparr>bondData = \<lparr>nominalValue = ''1000'', currentValue = ''900'', expirationYear = ''2030'',
          yearlyInterestRate = ''2.5''\<rparr>, result = None\<rparr>) =
     result (recompute pw 2025
       \<lparr>bondData = \<lparr>nominalValue = ''1000'', currentValue = ''900'', expirationYear = ''2030'',
          yearlyInterestRate = ''2.5''\<rparr>,
        result = Some \<lparr>compoundRate = NaN, totalInterestPayments = NaN, totalReturn = NaN,
                       yearsRemaining = NaN\<rparr>\<rparr>)"
proof
  fix pw
  show "result (recompute pw 2025
       \<lparr>bondData = \<lparr>nominalValue = ''1000'', currentValue = ''900'', expirationYear = ''2030'',
          yearlyInterestRate = ''2.5''\<rparr>, result = None\<rparr>) =
     result (recompute pw 2025
       \<lparr>bondData = \<lparr>nominalValue = ''1000'', currentValue = ''900'', expirationYear = ''2030'',
          yearlyInterestRate = ''2.5''\<rparr>,
        result = Some \<lparr>compoundRate = NaN, totalInterestPayments = NaN, totalReturn = NaN,
                       yearsRemaining = NaN\<rparr>\<rparr>)"
    using recompute_deterministic [of
        "\<lparr>bondData = \<lparr>nominalValue = ''1000'', currentValue = ''900'', expirationYear = ''2030'',
          yearlyInterestRate = ''2.5''\<rparr>, result = None\<rparr>"
        "\<lparr>bondData = \<lparr>nominalValue = ''1000'', currentValue = ''900'', expirationYear = ''2030'',
          yearlyInterestRate = ''2.5''\<rparr>,
        result = Some \<lparr>compoundRate = NaN, totalInterestPayments = NaN, totalReturn = NaN,
                       yearsRemaining = NaN\<rparr>\<rparr>" pw 2025]
    by simp
qed

text \<open>
  C7 (as amended). For every input that produces a result, the displayed per-year
  interest is the fresh quotient \<open>totalInterestPayments / yearsRemaining\<close>, that is
  \<open>(annualInterest * yearsRemaining) / yearsRemaining\<close> with both operations rounded; it
  is not the stored \<open>annualInterest\<close>, and it need not equal it.
\<close>

theorem displayed_interest_is_quotient:
  assumes "calculateCompoundRate pw cy bd = Some r"
  shows "displayedAnnualInterest r =
     js_div (js_mul (annualInterestOf bd) (yearsRemaining r)) (yearsRemaining r)"
  using calculate_SomeD [OF assms] by (simp add: displayedAnnualInterest_def)

theorem displayed_interest_is_quotient_witness:
  "\<forall>pw. \<exists>r. calculateCompoundRate pw 2025
        \<lparr>nominalValue = ''1000'', currentValue = ''900'', expirationYear = ''2030'',
         yearlyInterestRate = ''2.5''\<rparr> = Some r \<and>
      displayedAnnualInterest r = number_of_int 25"
proof
  fix pw
  let ?bd = "\<lparr>nominalValue = ''1000'', currentValue = ''900'', expirationYear = ''2030'',
         yearlyInterestRate = ''2.5''\<rparr>"
  have v: "calculateCompoundRate pw 2025 ?bd =
      Some \<lparr>compoundRate = pw (Finite False 5 (- 2)) (Finite False 3602879701896397 (- 54)),
            totalInterestPayments = number_of_int 125,
            totalReturn = number_of_int 1125, yearsRemaining = number_of_int 5\<rparr>"
    by code_simp
  have q: "js_div (js_mul (annualInterestOf ?bd) (number_of_int 5)) (number_of_int 5) = number_of_int 25"
    by code_simp
  show "\<exists>r. calculateCompoundRate pw 2025 ?bd = Some r \<and> displayedAnnualInterest r = number_of_int 25"
    using displayed_interest_is_quotient [OF v] q v by simp
qed

text \<open>
  C7 as stated calls the quotient numerically identical to \<open>annualInterest\<close>. For the
  nominal value \<open>100\<close> at \<open>0.1\<close> percent with three years remaining, \<open>annualInterest\<close> is
  the Number \<open>0.1\<close> and the displayed quotient is the next Number above it
  (\<open>0.10000000000000002\<close>).
\<close>

theorem displayed_interest_counterexample:
  "\<forall>pw. \<exists>r. calculateCompoundRate pw 2025
        \<lparr>nominalValue = ''100'', currentValue = ''90'', expirationYear = ''2028'',
         yearlyInterestRate = ''0.1''\<rparr> = Some r \<and>
      displayedAnnualInterest r = Finite False 7205759403792795 (- 56) \<and>
      annualInterestOf
        \<lparr>nominalValue = ''100'', currentValue = ''90'', expirationYear = ''2028'',
         yearlyInterestRate = ''0.1''\<rparr> = Finite False 3602879701896397 (- 55) \<and>
      displayedAnnualInterest r \<noteq>
      annualInterestOf
        \<lparr>nominalValue = ''100'', currentValue = ''90'', expirationYear = ''2028'',
         yearlyInterestRate = ''0.1''\<rparr>"
proof
  fix pw
  let ?bd = "\<lparr>nominalValue = ''100'', currentValue = ''90'', expirationYear = ''2028'',
         yearlyInterestRate = ''0.1''\<rparr>"
  have "\<not> (isNaN (parseFloat (nominalValue ?bd)) \<or> isNaN (parseFloat (currentValue ?bd)) \<or>
     isNaN (parseInt (expirationYear ?bd)) \<or> isNaN (parseFloat (yearlyInterestRate ?bd)) \<or>
     js_le (js_sub (parseInt (expirationYear ?bd)) (number_of_int 2025)) (number_of_int 0))"
    by code_simp
  then obtain r where r: "calculateCompoundRate pw 2025 ?bd = Some r"
    using calculate_None_iff [of pw 2025 ?bd] by auto
  have q: "js_div (js_mul (annualInterestOf ?bd) (js_sub (parseInt ''2028'') (number_of_int 2025)))
         (js_sub (parseInt ''2028'') (number_of_int 2025)) = Finite False 7205759403792795 (- 56)"
    "annualInterestOf ?bd = Finite False 3602879701896397 (- 55)"
    by code_simp+
  have "displayedAnnualInterest r = Finite False 7205759403792795 (- 56)"
    using calculate_SomeD [OF r] q(1) by (simp add: displayedAnnualInterest_def)
  then show "\<exists>r. calculateCompoundRate pw 2025 ?bd = Some r \<and>
      displayedAnnualInterest r = Finite False 7205759403792795 (- 56) \<and>
      annualInterestOf ?bd = Finite False 3602879701896397 (- 55) \<and>
      displayedAnnualInterest r \<noteq> annualInterestOf ?bd"
    using r q(2) by simp
qed

text \<open>
  C8. \<open>handleInputChange field value\<close> sets the named field to the new text and leaves
  the other three fields as they were.
\<close>

theorem handleInputChange_frame:
  "field_text f (handleInputChange f v prev) = v \<and>
   (\<forall>g. g \<noteq> f \<longrightarrow> field_text g (handleInputChange f v prev) = field_text g prev)"
  by (cases f) (auto simp add: field_text_def handleInputChange_def split: Field.splits)

theorem handleInputChange_frame_witness:
  "field_text ExpirationYearField
     (handleInputChange ExpirationYearField ''2031''
        \<lparr>nominalValue = ''1000'', currentValue = ''900'', expirationYear = ''2030'',
         yearlyInterestRate = ''2.5''\<rparr>) = ''2031'' \<and>
   NominalValueField \<noteq> ExpirationYearField \<and>
   field_text NominalValueField
     (handleInputChange ExpirationYearField ''2031''
        \<lparr>nominalValue = ''1000'', currentValue = ''900'', expirationYear = ''2030'',
         yearlyInterestRate = ''2.5''\<rparr>) = ''1000''"
proof -
  let ?prev = "\<lparr>nominalValue = ''1000'', currentValue = ''900'', expirationYear = ''2030'',
         yearlyInterestRate = ''2.5''\<rparr>"
  have d: "NominalValueField \<noteq> ExpirationYearField" by simp
  have "field_text ExpirationYearField (handleInputChange ExpirationYearField ''2031'' ?prev) = ''2031''"
    using handleInputChange_frame [of ExpirationYearField "''2031''" ?prev] by blast
  moreover have "field_text NominalValueField (handleInputChange ExpirationYearField ''2031'' ?prev) =
      field_text NominalValueField ?prev"
    using handleInputChange_frame [of ExpirationYearField "''2031''" ?prev] d by blast
  moreover have "field_text NominalValueField ?prev = ''1000''" by (simp add: field_text_def)
  ultimately show ?thesis using d by simp
qed

text \<open>
  C9 (as amended). For an expiration year that starts with decimal digits followed by a
  character that is not a digit (as in \<open>2030.9\<close>), other than \<open>0x\<close> or \<open>0X\<close>, the year is
  the integer of those digits, and the calculation is the one for the digits alone. The
  other three fields are read as decimals with their fraction: for texts \<open>digits.digits\<close>
  in them the calculation runs on the Numbers of these decimals.
\<close>

theorem year_truncated:
  assumes "ds \<noteq> []" and "list_all (is_radix_digit 10) ds" and "\<not> is_radix_digit 10 c"
    and "\<not> (ds = ''0'' \<and> (c = CHR ''x'' \<or> c = CHR ''X''))"
    and "list_all (is_radix_digit 10) fs"
  shows "parseInt (ds @ c # cs) = number_of_int (radix_value 10 ds) \<and>
     calculateCompoundRate pw cy (bd\<lparr>expirationYear := ds @ c # cs\<rparr>) =
       calculateCompoundRate pw cy (bd\<lparr>expirationYear := ds\<rparr>) \<and>
     parseFloat (ds @ CHR ''.'' # fs) =
       round_to_double False (radix_value 10 (ds @ fs)) (10 ^ length fs) 0 \<and>
     (dn \<noteq> [] \<and> list_all (is_radix_digit 10) dn \<and> list_all (is_radix_digit 10) fn \<and>
      dc \<noteq> [] \<and> list_all (is_radix_digit 10) dc \<and> list_all (is_radix_digit 10) fc \<and>
      dr \<noteq> [] \<and> list_all (is_radix_digit 10) dr \<and> list_all (is_radix_digit 10) fr \<longrightarrow>
      calculateCompoundRate pw cy
        \<lparr>nominalValue = dn @ CHR ''.'' # fn, currentValue = dc @ CHR ''.'' # fc,
         expirationYear = ds @ c # cs, yearlyInterestRate = dr @ CHR ''.'' # fr\<rparr> =
      (let nominal = decimal_number dn fn;
           current = decimal_number dc fc;
           years = js_sub (number_of_int (radix_value 10 ds)) (number_of_int cy);
           annualInterest = js_mul nominal (js_div (decimal_number dr fr) (number_of_int 100));
           totalInterest = js_mul annualInterest years;
           total = js_add totalInterest nominal
       in if js_le years (number_of_int 0) then None
          else Some \<lparr>compoundRate =
                       js_pow pw (js_div total current) (js_div (number_of_int 1) years),
                     totalInterestPayments = totalInterest, totalReturn = total,
                     yearsRemaining = years\<rparr>))"
proof -
  have a: "parseInt (ds @ c # cs) = number_of_int (radix_value 10 ds)"
    using parseInt_digits [OF assms(1,2), of "c # cs"] assms(3,4) by simp
  have b: "parseInt ds = number_of_int (radix_value 10 ds)"
    using parseInt_digits [OF assms(1,2), of "[]"] by simp
  have d: "calculateCompoundRate pw cy
        \<lparr>nominalValue = dn @ CHR ''.'' # fn, currentValue = dc @ CHR ''.'' # fc,
         expirationYear = ds @ c # cs, yearlyInterestRate = dr @ CHR ''.'' # fr\<rparr> =
      (let nominal = decimal_number dn fn;
           current = decimal_number dc fc;
           years = js_sub (number_of_int (radix_value 10 ds)) (number_of_int cy);
           annualInterest = js_mul nominal (js_div (decimal_number dr fr) (number_of_int 100));
           totalInterest = js_mul annualInterest years;
           total = js_add totalInterest nominal
       in if js_le years (number_of_int 0) then None
          else Some \<lparr>compoundRate =
                       js_pow pw (js_div total current) (js_div (number_of_int 1) years),
                     totalInterestPayments = totalInterest, totalReturn = total,
                     yearsRemaining = years\<rparr>)"
    if "dn \<noteq> [] \<and> list_all (is_radix_digit 10) dn \<and> list_all (is_radix_digit 10) fn \<and>
      dc \<noteq> [] \<and> list_all (is_radix_digit 10) dc \<and> list_all (is_radix_digit 10) fc \<and>
      dr \<noteq> [] \<and> list_all (is_radix_digit 10) dr \<and> list_all (is_radix_digit 10) fr"
  proof -
    have p: "parseFloat (dn @ CHR ''.'' # fn) = decimal_number dn fn"
      "parseFloat (dc @ CHR ''.'' # fc) = decimal_number dc fc"
      "parseFloat (dr @ CHR ''.'' # fr) = decimal_number dr fr"
      using that by (simp_all add: parseFloat_decimal decimal_number_def)
    show ?thesis
      unfolding calculate_eq
      by (simp add: p a annualInterestOf_def Let_def decimal_number_not_NaN
          number_of_int_not_NaN)
  qed
  show ?thesis
    using a b d parseFloat_decimal [OF assms(1,2,5)]
    by (simp add: calculateCompoundRate_def)
qed

theorem year_truncated_witness:
  "''2030'' \<noteq> [] \<and> list_all (is_radix_digit 10) ''2030'' \<and> \<not> is_radix_digit 10 CHR ''.'' \<and>
   \<not> (''2030'' = ''0'' \<and> (CHR ''.'' = CHR ''x'' \<or> CHR ''.'' = CHR ''X'')) \<and>
   list_all (is_radix_digit 10) ''9'' \<and>
   (''1000'' \<noteq> [] \<and> list_all (is_radix_digit 10) ''1000'' \<and> list_all (is_radix_digit 10) ''0'' \<and>
    ''900'' \<noteq> [] \<and> list_all (is_radix_digit 10) ''900'' \<and> list_all (is_radix_digit 10) ''0'' \<and>
    ''2'' \<noteq> [] \<and> list_all (is_radix_digit 10) ''2'' \<and> list_all (is_radix_digit 10) ''5'') \<and>
   parseInt ''2030.9'' = number_of_int 2030 \<and>
   parseFloat ''2030.9'' = round_to_double False 20309 10 0 \<and>
   (\<forall>pw. (\<exists>r. calculateCompoundRate pw 2025
      \<lparr>nominalValue = ''1000'', currentValue = ''900'', expirationYear = ''2030.9'',
       yearlyInterestRate = ''2.5''\<rparr> = Some r \<and> yearsRemaining r = number_of_int 5) \<and>
     calculateCompoundRate pw 2025
      \<lparr>nominalValue = ''1000.0'', currentValue = ''900.0'', expirationYear = ''2030.9'',
       yearlyInterestRate = ''2.5''\<rparr> =
     Some \<lparr>compoundRate = js_pow pw (js_div (number_of_int 1125) (number_of_int 900))
                             (js_div (number_of_int 1) (number_of_int 5)),
           totalInterestPayments = number_of_int 125, totalReturn = number_of_int 1125,
           yearsRemaining = number_of_int 5\<rparr>)"
proof -
  let ?bd = "\<lparr>nominalValue = ''1000'', currentValue = ''900'', expirationYear = ''2030'',
       yearlyInterestRate = ''2.5''\<rparr>"
  have h: "''2030'' \<noteq> []" "list_all (is_radix_digit 10) ''2030''" "\<not> is_radix_digit 10 CHR ''.''"
    "\<not> (''2030'' = ''0'' \<and> (CHR ''.'' = CHR ''x'' \<or> CHR ''.'' = CHR ''X''))"
    "list_all (is_radix_digit 10) ''9''"
    by code_simp+
  have g: "''1000'' \<noteq> [] \<and> list_all (is_radix_digit 10) ''1000'' \<and> list_all (is_radix_digit 10) ''0'' \<and>
    ''900'' \<noteq> [] \<and> list_all (is_radix_digit 10) ''900'' \<and> list_all (is_radix_digit 10) ''0'' \<and>
    ''2'' \<noteq> [] \<and> list_all (is_radix_digit 10) ''2'' \<and> list_all (is_radix_digit 10) ''5''"
    by code_simp
  have v: "radix_value 10 ''2030'' = 2030" "radix_value 10 ''20309'' = 20309" by code_simp+
  have c: "\<exists>r. calculateCompoundRate pw 2025 ?bd = Some r \<and> yearsRemaining r = number_of_int 5" for pw
  proof -
    have "calculateCompoundRate pw 2025 ?bd =
      Some \<lparr>compoundRate = pw (Finite False 5 (- 2)) (Finite False 3602879701896397 (- 54)),
          totalInterestPayments = number_of_int 125, totalReturn = number_of_int 1125,
          yearsRemaining = number_of_int 5\<rparr>"
      by code_simp
    then show ?thesis by simp
  qed
  have w: "js_sub (number_of_int 2030) (number_of_int 2025) = number_of_int 5"
    "\<not> js_le (number_of_int 5) (number_of_int 0)"
    "js_mul (js_mul (decimal_number ''1000'' ''0'')
        (js_div (decimal_number ''2'' ''5'') (number_of_int 100))) (number_of_int 5) =
      number_of_int 125"
    "js_add (number_of_int 125) (decimal_number ''1000'' ''0'') = number_of_int 1125"
    "decimal_number ''900'' ''0'' = number_of_int 900"
    by code_simp+
  note t = year_truncated [OF h, where cs = "''9''" and dn = "''1000''" and fn = "''0''"
      and dc = "''900''" and fc = "''0''" and dr = "''2''" and fr = "''5''" and cy = 2025]
  have 1: "parseInt ''2030.9'' = number_of_int 2030 \<and>
     parseFloat ''2030.9'' = round_to_double False 20309 10 0 \<and>
     (\<forall>pw. calculateCompoundRate pw 2025 (?bd\<lparr>expirationYear := ''2030.9''\<rparr>) =
       calculateCompoundRate pw 2025 (?bd\<lparr>expirationYear := ''2030''\<rparr>))"
    using t [where bd = ?bd] v by simp
  have 2: "calculateCompoundRate pw 2025
      \<lparr>nominalValue = ''1000.0'', currentValue = ''900.0'', expirationYear = ''2030.9'',
       yearlyInterestRate = ''2.5''\<rparr> =
     Some \<lparr>compoundRate = js_pow pw (js_div (number_of_int 1125) (number_of_int 900))
                             (js_div (number_of_int 1) (number_of_int 5)),
           totalInterestPayments = number_of_int 125, totalReturn = number_of_int 1125,
           yearsRemaining = number_of_int 5\<rparr>" for pw
    using t [where bd = ?bd and pw = pw] g v(1) w by (simp add: Let_def)
  show ?thesis using h g 1 2 c by simp
qed

text \<open>
  C9 as stated fails for the digit \<open>0\<close> followed by \<open>x\<close>: \<open>0x7F0\<close> is read in base 16 as
  \<open>2032\<close>, not truncated to the year \<open>0\<close> (for which the result would be absent).
\<close>

theorem hex_year_counterexample:
  "parseInt ''0x7F0'' = number_of_int 2032 \<and>
   number_of_int (radix_value 10 ''0'') = number_of_int 0 \<and>
   (\<forall>pw. (\<exists>r. calculateCompoundRate pw 2025
      \<lparr>nominalValue = ''1000'', currentValue = ''900'', expirationYear = ''0x7F0'',
       yearlyInterestRate = ''2.5''\<rparr> = Some r \<and> yearsRemaining r = number_of_int 7) \<and>
     calculateCompoundRate pw 2025
      \<lparr>nominalValue = ''1000'', currentValue = ''900'', expirationYear = ''0'',
       yearlyInterestRate = ''2.5''\<rparr> = None)"
proof (intro conjI allI)
  show "parseInt ''0x7F0'' = number_of_int 2032" by code_simp
  show "number_of_int (radix_value 10 ''0'') = number_of_int 0" by code_simp
next
  fix pw
  let ?bd = "\<lparr>nominalValue = ''1000'', currentValue = ''900'', expirationYear = ''0x7F0'',
       yearlyInterestRate = ''2.5''\<rparr>"
  have "\<not> (isNaN (parseFloat (nominalValue ?bd)) \<or> isNaN (parseFloat (currentValue ?bd)) \<or>
     isNaN (parseInt (expirationYear ?bd)) \<or> isNaN (parseFloat (yearlyInterestRate ?bd)) \<or>
     js_le (js_sub (parseInt (expirationYear ?bd)) (number_of_int 2025)) (number_of_int 0))"
    by code_simp
  then obtain r where r: "calculateCompoundRate pw 2025 ?bd = Some r"
    using calculate_None_iff [of pw 2025 ?bd] by auto
  have "js_sub (parseInt ''0x7F0'') (number_of_int 2025) = number_of_int 7" by code_simp
  then show "\<exists>r. calculateCompoundRate pw 2025 ?bd = Some r \<and> yearsRemaining r = number_of_int 7"
    using r calculate_SomeD [OF r] by simp
  show "calculateCompoundRate pw 2025
      \<lparr>nominalValue = ''1000'', currentValue = ''900'', expirationYear = ''0'',
       yearlyInterestRate = ''2.5''\<rparr> = None"
    by code_simp
qed

text \<open>
  C10. When all four fields parse and \<open>yearsRemaining > 0\<close>, a result is produced whatever
  the signs of the nominal value, the current value and the interest rate; the sign of
  \<open>totalInterestPayments\<close> is the product of the signs of the nominal value and the rate
  (a negative rate on a positive nominal value gives negative interest payments).
\<close>

theorem signs_not_validated:
  assumes "\<not> isNaN (parseFloat (nominalValue bd))" and "\<not> isNaN (parseFloat (currentValue bd))"
    and "\<not> isNaN (parseInt (expirationYear bd))" and "\<not> isNaN (parseFloat (yearlyInterestRate bd))"
    and "js_lt (number_of_int 0) (js_sub (parseInt (expirationYear bd)) (number_of_int cy))"
  shows "\<exists>r. calculateCompoundRate pw cy bd = Some r \<and>
     (totalInterestPayments r = NaN \<or>
      sign_bit (totalInterestPayments r) =
        (sign_bit (parseFloat (nominalValue bd)) \<noteq> sign_bit (parseFloat (yearlyInterestRate bd))))"
proof -
  let ?years = "js_sub (parseInt (expirationYear bd)) (number_of_int cy)"
  let ?rate = "js_div (parseFloat (yearlyInterestRate bd)) (number_of_int 100)"
  let ?annual = "js_mul (parseFloat (nominalValue bd)) ?rate"
  have pos: "\<not> js_le ?years (number_of_int 0)"
    using assms(5) by (simp add: js_lt_def)
  then have y: "\<not> sign_bit ?years" by (rule js_sub_positive_sign)
  have "?rate \<noteq> NaN" using assms(4) js_div_100_NaN [of "parseFloat (yearlyInterestRate bd)"]
    by (simp add: isNaN_def)
  then have r: "sign_bit ?rate = sign_bit (parseFloat (yearlyInterestRate bd))"
    using js_div_sign [of "parseFloat (yearlyInterestRate bd)" "number_of_int 100"]
    by (simp add: number_of_int_100 sign_bit_def)
  have "js_mul ?annual ?years = NaN \<or>
      sign_bit (js_mul ?annual ?years) =
        (sign_bit (parseFloat (nominalValue bd)) \<noteq> sign_bit (parseFloat (yearlyInterestRate bd)))"
  proof (cases "?annual = NaN")
    case True
    then show ?thesis by simp
  next
    case False
    then have "sign_bit ?annual = (sign_bit (parseFloat (nominalValue bd)) \<noteq> sign_bit ?rate)"
      using js_mul_sign [of "parseFloat (nominalValue bd)" ?rate] by simp
    then show ?thesis using js_mul_sign [of ?annual ?years] y r by auto
  qed
  then show ?thesis
    using assms(1-4) pos by (simp add: calculate_Some Let_def)
qed

theorem signs_not_validated_witness:
  "\<forall>pw. (\<not> isNaN (parseFloat ''1000'') \<and> \<not> isNaN (parseFloat ''900'') \<and>
      \<not> isNaN (parseInt ''2030'') \<and> \<not> isNaN (parseFloat ''-2.5'') \<and>
      js_lt (number_of_int 0) (js_sub (parseInt ''2030'') (number_of_int 2025))) \<and>
    (\<exists>r. calculateCompoundRate pw 2025
        \<lparr>nominalValue = ''1000'', currentValue = ''900'', expirationYear = ''2030'',
         yearlyInterestRate = ''-2.5''\<rparr> = Some r \<and>
      totalInterestPayments r = number_of_int (- 125) \<and> sign_bit (totalInterestPayments r))"
proof
  fix pw
  let ?bd = "\<lparr>nominalValue = ''1000'', currentValue = ''900'', expirationYear = ''2030'',
         yearlyInterestRate = ''-2.5''\<rparr>"
  have h: "\<not> isNaN (parseFloat (nominalValue ?bd))" "\<not> isNaN (parseFloat (currentValue ?bd))"
    "\<not> isNaN (parseInt (expirationYear ?bd))" "\<not> isNaN (parseFloat (yearlyInterestRate ?bd))"
    "js_lt (number_of_int 0) (js_sub (parseInt (expirationYear ?bd)) (number_of_int 2025))"
    by code_simp+
  have v: "calculateCompoundRate pw 2025 ?bd =
      Some \<lparr>compoundRate = pw (Finite False 8756999275442631 (- 53)) (Finite False 3602879701896397 (- 54)),
            totalInterestPayments = number_of_int (- 125),
            totalReturn = number_of_int 875, yearsRemaining = number_of_int 5\<rparr>"
    by code_simp
  have s: "sign_bit (number_of_int (- 125))" by code_simp
  from signs_not_validated [OF h, of pw] obtain r where
    "calculateCompoundRate pw 2025 ?bd = Some r" by blast
  then have "calculateCompoundRate pw 2025 ?bd = Some r \<and>
      totalInterestPayments r = number_of_int (- 125) \<and> sign_bit (totalInterestPayments r)"
    using v s by auto
  then show "(\<not> isNaN (parseFloat ''1000'') \<and> \<not> isNaN (parseFloat ''900'') \<and>
      \<not> isNaN (parseInt ''2030'') \<and> \<not> isNaN (parseFloat ''-2.5'') \<and>
      js_lt (number_of_int 0) (js_sub (parseInt ''2030'') (number_of_int 2025))) \<and>
    (\<exists>r. calculateCompoundRate pw 2025 ?bd = Some r \<and>
      totalInterestPayments r = number_of_int (- 125) \<and> sign_bit (totalInterestPayments r))"
    using h by auto
qed

end
